theory Spec2Isabelle
  imports Main "HOL-Library.Sublist"
begin

section \<open>Strings, errors and requests\<close>

text \<open>
  A Python \<^verbatim>\<open>str\<close> is modelled as a \<open>string\<close>; one \<open>char\<close> stands for one
  character of the \<^verbatim>\<open>str\<close>, which is exact for ASCII text (\<open>length\<close> is then
  Python's \<^verbatim>\<open>len\<close>). The non-ASCII literals of the source are written as their
  UTF-8 bytes.

  Every exception the modelled code can raise is a value of \<open>error\<close>, and a function
  that can raise returns \<open>error + 'a\<close> with \<open>Inl\<close> for the exception.
  \<open>HTTPException\<close> carries \<^verbatim>\<open>status_code\<close> and \<^verbatim>\<open>detail\<close>.
\<close>

datatype error =
    AttributeError
  | TypeError
  | JSONDecodeError
  | RecursionError
  | HTTPException int string

definition ebind :: "error + 'a \<Rightarrow> ('a \<Rightarrow> error + 'b) \<Rightarrow> error + 'b" where
  \<comment> \<open>sequencing: an exception of the first part ends the computation\<close>
  "ebind m f = (case m of Inl e \<Rightarrow> Inl e | Inr x \<Rightarrow> f x)"

definition nl :: string where
  \<comment> \<open>the one-character string \<^verbatim>\<open>"\n"\<close>\<close>
  "nl = [CHR 0x0A]"

text \<open>
  \<^verbatim>\<open>class Message(BaseModel)\<close>: \<^verbatim>\<open>role: Literal["system", "user", "assistant"]\<close>
  and \<^verbatim>\<open>content: str\<close>. \<open>role_str\<close> gives the string a role is in Python.
\<close>

datatype role = System | User | Assistant

fun role_str :: "role \<Rightarrow> string" where
  "role_str System = ''system''"
| "role_str User = ''user''"
| "role_str Assistant = ''assistant''"

record message =
  msg_role :: role
  msg_content :: string

section \<open>Context truncation: \<^verbatim>\<open>truncate_messages\<close>\<close>

definition total_chars :: "message list \<Rightarrow> int" where
  \<comment> \<open>\<^verbatim>\<open>sum(len(msg.content) for msg in messages)\<close>\<close>
  "total_chars messages = sum_list (map (\<lambda>msg. int (length (msg_content msg))) messages)"

definition is_ua :: "message \<Rightarrow> bool" where
  \<comment> \<open>\<^verbatim>\<open>msg.role in ["user", "assistant"]\<close>\<close>
  "is_ua msg = (role_str (msg_role msg) \<in> set [''user'', ''assistant''])"

text \<open>
  The loop \<^verbatim>\<open>for msg in reversed(ua_messages)\<close>: the first argument is the
  part of the reversed list not yet visited; \<^verbatim>\<open>truncated_ua.insert(0, msg)\<close>
  puts the message in front, \<^verbatim>\<open>break\<close> returns what has been kept so far.
\<close>

fun truncate_loop :: "message list \<Rightarrow> int \<Rightarrow> message list \<Rightarrow> int \<Rightarrow> message list" where
  "truncate_loop [] available_chars truncated_ua current_chars = truncated_ua"
| "truncate_loop (msg # rest) available_chars truncated_ua current_chars =
     (let msg_chars = int (length (msg_content msg)) in
      if current_chars + msg_chars \<le> available_chars
      then truncate_loop rest available_chars (msg # truncated_ua) (current_chars + msg_chars)
      else truncated_ua)"

definition truncate_messages :: "message list \<Rightarrow> int \<Rightarrow> message list" where
  "truncate_messages messages max_chars =
     (if total_chars messages \<le> max_chars then messages
      else
        let other_messages = filter (\<lambda>msg. \<not> is_ua msg) messages;
            other_chars = total_chars other_messages;
            available_chars = max_chars - other_chars
        in if available_chars \<le> 0 then other_messages
           else
             let ua_messages = filter is_ua messages;
                 truncated_ua = truncate_loop (rev ua_messages) available_chars [] 0
             in other_messages @ truncated_ua)"

section \<open>Regular-expression removal, trimming, joining\<close>

text \<open>
  \<^verbatim>\<open>re.sub(r"<tag>.*?</tag>", "", s, flags=re.DOTALL)\<close> for an opening and a
  closing tag: scanning from the left, a match starts at the first position where
  the opening tag stands and a closing tag follows it somewhere later (with
  \<^verbatim>\<open>DOTALL\<close> the dot matches every character, newlines too); the lazy
  \<^verbatim>\<open>.*?\<close> ends the match at the first closing tag after the opening one; the
  scan goes on behind the match. \<open>after_first pat s\<close> is what follows the first
  occurrence of \<open>pat\<close> in \<open>s\<close>.
\<close>

fun after_first :: "string \<Rightarrow> string \<Rightarrow> string option" where
  "after_first pat [] = (if pat = [] then Some [] else None)"
| "after_first pat (c # cs) =
     (if prefix pat (c # cs) then Some (drop (length pat) (c # cs)) else after_first pat cs)"

lemma after_first_length: "after_first pat s = Some r \<Longrightarrow> length r \<le> length s"
  by (induction s) (auto split: if_splits)

function re_sub_span :: "string \<Rightarrow> string \<Rightarrow> string \<Rightarrow> string" where
  "re_sub_span opn cls [] = []"
| "re_sub_span opn cls (c # cs) =
     (if opn \<noteq> [] \<and> prefix opn (c # cs) then
        (case after_first cls (drop (length opn) (c # cs)) of
           Some rest \<Rightarrow> re_sub_span opn cls rest
         | None \<Rightarrow> c # re_sub_span opn cls cs)
      else c # re_sub_span opn cls cs)"
  by pat_completeness auto
termination
proof (relation "measure (\<lambda>(opn, cls, s). length s)")
  fix opn cls :: string and c :: char and cs rest :: string
  assume "opn \<noteq> [] \<and> prefix opn (c # cs)"
    and "after_first cls (drop (length opn) (c # cs)) = Some rest"
  then have "length rest \<le> length (drop (length opn) (c # cs))" and "0 < length opn"
    using after_first_length [of cls "drop (length opn) (c # cs)" rest] by simp_all
  then show "((opn, cls, rest), (opn, cls, c # cs)) \<in> measure (\<lambda>(opn, cls, s). length s)"
    by (cases opn) auto
qed simp_all

text \<open>
  \<^verbatim>\<open>str.strip()\<close> removes leading and trailing whitespace; among the ASCII
  characters Python's whitespace is tab, line feed, vertical tab, form feed,
  carriage return, the separators \<^verbatim>\<open>\x1c\<close> to \<^verbatim>\<open>\x1f\<close> and the space.
\<close>

definition is_space :: "char \<Rightarrow> bool" where
  "is_space c = ((of_char c :: nat) \<in> set [9, 10, 11, 12, 13, 28, 29, 30, 31, 32])"

definition py_strip :: "string \<Rightarrow> string" where
  "py_strip s = rev (dropWhile is_space (rev (dropWhile is_space s)))"

text \<open>\<^verbatim>\<open>str.capitalize()\<close> on ASCII letters: first character upper case, the rest lower case.\<close>

definition upper_char :: "char \<Rightarrow> char" where
  "upper_char c =
     (case map_of (zip ''abcdefghijklmnopqrstuvwxyz'' ''ABCDEFGHIJKLMNOPQRSTUVWXYZ'') c of
        Some u \<Rightarrow> u | None \<Rightarrow> c)"

definition lower_char :: "char \<Rightarrow> char" where
  "lower_char c =
     (case map_of (zip ''ABCDEFGHIJKLMNOPQRSTUVWXYZ'' ''abcdefghijklmnopqrstuvwxyz'') c of
        Some l \<Rightarrow> l | None \<Rightarrow> c)"

fun capitalize :: "string \<Rightarrow> string" where
  "capitalize [] = []"
| "capitalize (c # cs) = upper_char c # map lower_char cs"

text \<open>\<^verbatim>\<open>sep.join(parts)\<close>.\<close>

fun join :: "string \<Rightarrow> string list \<Rightarrow> string" where
  "join sep [] = []"
| "join sep [x] = x"
| "join sep (x # y # ys) = x @ sep @ join sep (y # ys)"

section \<open>Message flattening: \<^verbatim>\<open>concatenate_messages\<close>\<close>

text \<open>
  The loop \<^verbatim>\<open>for msg in messages\<close> with the list \<^verbatim>\<open>concatenated\<close> it appends to.
\<close>

fun concatenate_loop :: "message list \<Rightarrow> string list \<Rightarrow> string list" where
  "concatenate_loop [] concatenated = concatenated"
| "concatenate_loop (msg # rest) concatenated =
     (let content = py_strip (re_sub_span ''<think>'' ''</think>'' (msg_content msg)) in
      if content \<noteq> []
      then concatenate_loop rest
             (concatenated @ [capitalize (role_str (msg_role msg)) @ '': '' @ content])
      else concatenate_loop rest concatenated)"

definition concatenate_messages :: "message list \<Rightarrow> string" where
  "concatenate_messages messages = join nl (concatenate_loop messages [])"

text \<open>
  For the comparison with the specification's wording: what remains of a message's
  content once its think spans are removed and the surrounding whitespace is trimmed.
\<close>

definition remaining_content :: "message \<Rightarrow> string" where
  "remaining_content m = py_strip (re_sub_span ''<think>'' ''</think>'' (msg_content m))"

section \<open>Authorization: \<^verbatim>\<open>check_authorization\<close>\<close>

text \<open>
  \<^verbatim>\<open>str.replace(old, new)\<close> replaces every occurrence of \<open>old\<close>, left to right
  and without overlap (for a non-empty \<open>old\<close>, the only use in the source).
\<close>

function str_replace :: "string \<Rightarrow> string \<Rightarrow> string \<Rightarrow> string" where
  "str_replace old new [] = []"
| "str_replace old new (c # cs) =
     (if old \<noteq> [] \<and> prefix old (c # cs)
      then new @ str_replace old new (drop (length old) (c # cs))
      else c # str_replace old new cs)"
  by pat_completeness auto
termination
  by (relation "measure (\<lambda>(old, new, s). length s)") (auto simp: neq_Nil_conv)

definition detail_missing :: string where
  "detail_missing = [CHR 0xE7, CHR 0xBC, CHR 0xBA, CHR 0xE5, CHR 0xB0, CHR 0x91] @ '' Authorization ''
     @ [CHR 0xE5, CHR 0xA4, CHR 0xB4, CHR 0xE9, CHR 0x83, CHR 0xA8]"

definition detail_invalid :: string where
  "detail_invalid = [CHR 0xE6, CHR 0x97, CHR 0xA0, CHR 0xE6, CHR 0x95, CHR 0x88, CHR 0xE7, CHR 0x9A, CHR 0x84]
     @ '' API '' @ [CHR 0xE5, CHR 0xAF, CHR 0x86, CHR 0xE9, CHR 0x92, CHR 0xA5]"

text \<open>
  The header value is \<open>None\<close> when the request has no \<^verbatim>\<open>Authorization\<close> header
  (\<^verbatim>\<open>APIKeyHeader(..., auto_error=False)\<close>); \<open>API_KEY\<close> is the configured key, which
  the module refuses to start without (\<^verbatim>\<open>if not API_KEY: raise ValueError\<close>).
\<close>

definition check_authorization :: "string \<Rightarrow> string option \<Rightarrow> error + bool" where
  "check_authorization API_KEY authorization =
     (case authorization of
        None \<Rightarrow> Inl (HTTPException 401 detail_missing)
      | Some a \<Rightarrow>
          if a = [] then Inl (HTTPException 401 detail_missing)
          else
            let api_key = (if prefix ''Bearer '' a then str_replace ''Bearer '' [] a else a)
            in if api_key \<noteq> API_KEY then Inl (HTTPException 401 detail_invalid)
               else Inr True)"

section \<open>Decoded JSON values and the Python operations on them\<close>

text \<open>
  What \<^verbatim>\<open>json.loads\<close> returns: \<^verbatim>\<open>None\<close>, a \<^verbatim>\<open>bool\<close>, an \<^verbatim>\<open>int\<close>,
  a \<^verbatim>\<open>float\<close>, a \<^verbatim>\<open>str\<close>, a \<^verbatim>\<open>list\<close> or a \<^verbatim>\<open>dict\<close> with string keys.
  A float is kept as the number literal it was read from. A dict is the list of its
  members as written; a key written twice has its last value (and its first place).
\<close>

datatype json =
    JNull
  | JBool bool
  | JInt int
  | JFloat string
  | JString string
  | JArray "json list"
  | JObject "(string \<times> json) list"

definition dict_lookup :: "(string \<times> json) list \<Rightarrow> string \<Rightarrow> json option" where
  "dict_lookup members key = map_of (rev members) key"

definition dict_keys :: "(string \<times> json) list \<Rightarrow> string list" where
  "dict_keys members = rev (remdups (rev (map fst members)))"

text \<open>
  \<^verbatim>\<open>x.get(key, default)\<close>: only a dict has the method; on every other decoded
  value the attribute lookup raises \<^verbatim>\<open>AttributeError\<close>.
\<close>

fun py_get :: "json \<Rightarrow> string \<Rightarrow> json \<Rightarrow> error + json" where
  "py_get (JObject members) key dflt =
     Inr (case dict_lookup members key of Some v \<Rightarrow> v | None \<Rightarrow> dflt)"
| "py_get x key dflt = Inl AttributeError"

text \<open>
  Truth value of a decoded value (\<^verbatim>\<open>x or ""\<close>, \<^verbatim>\<open>if content:\<close>). A float is
  false when it is zero; a literal is taken to be zero when its mantissa has no
  digit other than 0 (a literal too small for a double also reads as \<^verbatim>\<open>0.0\<close>
  in Python; that rounding is not part of the model).
\<close>

definition float_is_zero :: "string \<Rightarrow> bool" where
  "float_is_zero lit =
     (lit \<notin> set [''NaN'', ''Infinity'', ''-Infinity''] \<and>
      list_all (\<lambda>c. c \<notin> set ''123456789'') (takeWhile (\<lambda>c. c \<notin> set ''eE'') lit))"

fun truthy :: "json \<Rightarrow> bool" where
  "truthy JNull = False"
| "truthy (JBool b) = b"
| "truthy (JInt i) = (i \<noteq> 0)"
| "truthy (JFloat lit) = (\<not> float_is_zero lit)"
| "truthy (JString s) = (s \<noteq> [])"
| "truthy (JArray xs) = (xs \<noteq> [])"
| "truthy (JObject members) = (members \<noteq> [])"

text \<open>
  \<^verbatim>\<open>for item in x\<close>: a list gives its elements, a dict its keys, a string its
  characters as one-character strings; the other values are not iterable.
\<close>

fun py_iter :: "json \<Rightarrow> error + json list" where
  "py_iter (JArray xs) = Inr xs"
| "py_iter (JObject members) = Inr (map JString (dict_keys members))"
| "py_iter (JString s) = Inr (map (\<lambda>c. JString [c]) s)"
| "py_iter x = Inl TypeError"

text \<open>Decimal digits of an \<^verbatim>\<open>int\<close>, as \<^verbatim>\<open>str\<close> prints it.\<close>

fun show_nat :: "nat \<Rightarrow> string" where
  "show_nat n =
     (if n < 10 then [''0123456789'' ! n]
      else show_nat (n div 10) @ [''0123456789'' ! (n mod 10)])"

declare show_nat.simps [simp del]

definition show_int :: "int \<Rightarrow> string" where
  "show_int i = (if i < 0 then ''-'' @ show_nat (nat (- i)) else show_nat (nat i))"

text \<open>
  The library functions the code calls are parameters of the model:
  \<^item> \<open>loads\<close> is \<^verbatim>\<open>json.loads\<close> on a \<^verbatim>\<open>str\<close>, returning the decoded value or
    the exception it raises (\<^verbatim>\<open>JSONDecodeError\<close> on malformed text);
  \<^item> \<open>repr_of\<close> is the text Python prints for a float, a list or a dict inside an
    f-string.
  The theorems below hold for every such pair; \<open>py\<close> (further down) is the
  instance on which concrete inputs are evaluated.
\<close>

record pylib =
  loads :: "string \<Rightarrow> error + json"
  repr_of :: "json \<Rightarrow> string"

text \<open>\<^verbatim>\<open>f"{x}"\<close> for a decoded value \<open>x\<close>.\<close>

fun fstr :: "pylib \<Rightarrow> json \<Rightarrow> string" where
  "fstr L (JString s) = s"
| "fstr L JNull = ''None''"
| "fstr L (JBool b) = (if b then ''True'' else ''False'')"
| "fstr L (JInt i) = show_int i"
| "fstr L x = repr_of L x"

text \<open>\<^verbatim>\<open>json.loads(x)\<close> where \<open>x\<close> is itself a decoded value: anything but a string raises \<^verbatim>\<open>TypeError\<close>.\<close>

fun loads_value :: "pylib \<Rightarrow> json \<Rightarrow> error + json" where
  "loads_value L (JString s) = loads L s"
| "loads_value L x = Inl TypeError"

section \<open>Card rendering: \<^verbatim>\<open>parse_card_content\<close>\<close>

definition msg_unparseable :: string where
  "msg_unparseable =
     [CHR 0xE6, CHR 0x97, CHR 0xA0, CHR 0xE6, CHR 0xB3, CHR 0x95, CHR 0xE8, CHR 0xA7, CHR 0xA3,
      CHR 0xE6, CHR 0x9E, CHR 0x90, CHR 0xE7, CHR 0x9A, CHR 0x84, CHR 0xE6, CHR 0x96, CHR 0xB0,
      CHR 0xE9, CHR 0x97, CHR 0xBB, CHR 0xE5, CHR 0x86, CHR 0x85, CHR 0xE5, CHR 0xAE, CHR 0xB9]"

definition msg_unsupported :: string where
  "msg_unsupported =
     [CHR 0xE4, CHR 0xB8, CHR 0x8D, CHR 0xE6, CHR 0x94, CHR 0xAF, CHR 0xE6, CHR 0x8C, CHR 0x81,
      CHR 0xE7, CHR 0x9A, CHR 0x84] @ '' card '' @ [CHR 0xE7, CHR 0xB1, CHR 0xBB, CHR 0xE5, CHR 0x9E, CHR 0x8B]"

definition table_header :: string where
  "table_header =
     nl @ nl @ ''| '' @ [CHR 0xE5, CHR 0xBA, CHR 0x8F, CHR 0xE5, CHR 0x8F, CHR 0xB7] @ '' | ''
     @ [CHR 0xE7, CHR 0xBD, CHR 0x91, CHR 0xE7, CHR 0xAB, CHR 0x99] @ ''URL | ''
     @ [CHR 0xE6, CHR 0x9D, CHR 0xA5, CHR 0xE6, CHR 0xBA, CHR 0x90] @ '' |'' @ nl
     @ ''| ---- | ---- | ---- |''"

text \<open>The inner loop \<^verbatim>\<open>for source in sources\<close>, appending one row per source.\<close>

fun source_rows :: "pylib \<Rightarrow> json list \<Rightarrow> string list \<Rightarrow> error + string list" where
  "source_rows L [] references = Inr references"
| "source_rows L (source # rest) references =
     (case
        ebind (py_get source ''idIndex'' (JString [])) (\<lambda>id_index.
        ebind (py_get source ''name'' (JString [])) (\<lambda>name.
        ebind (py_get source ''url'' (JString [])) (\<lambda>url.
        ebind (py_get source ''siteName'' (JString [])) (\<lambda>site_name.
          Inr (''| '' @ fstr L id_index @ '' | ['' @ fstr L name @ '']('' @ fstr L url
               @ '') | '' @ fstr L site_name @ '' |'')))))
      of Inl e \<Rightarrow> Inl e
       | Inr row \<Rightarrow> source_rows L rest (references @ [row]))"

text \<open>The outer loop \<^verbatim>\<open>for item in card_info.get("cardItems", [])\<close>.\<close>

fun card_items :: "pylib \<Rightarrow> json list \<Rightarrow> string list \<Rightarrow> error + string list" where
  "card_items L [] references = Inr references"
| "card_items L (item # rest) references =
     (case
        ebind (py_get item ''type'' JNull) (\<lambda>ty.
          if ty = JString ''2002'' then
            ebind (py_get item ''content'' (JString ''[]'')) (\<lambda>c.
            ebind (loads_value L c) (\<lambda>sources.
            ebind (py_iter sources) (\<lambda>srcs.
              source_rows L srcs references)))
          else Inr references)
      of Inl e \<Rightarrow> Inl e
       | Inr references' \<Rightarrow> card_items L rest references')"

text \<open>The body of the \<^verbatim>\<open>try\<close> block.\<close>

definition card_body :: "pylib \<Rightarrow> string \<Rightarrow> error + string" where
  "card_body L content =
     ebind (loads L content) (\<lambda>card_data.
     ebind (py_get card_data ''cardType'' JNull) (\<lambda>card_type.
       if card_type = JString ''DB-CARD-2'' then
         ebind (py_get card_data ''cardInfo'' (JObject [])) (\<lambda>card_info.
         ebind (py_get card_info ''cardItems'' (JArray [])) (\<lambda>card_items_value.
         ebind (py_iter card_items_value) (\<lambda>items.
         ebind (card_items L items []) (\<lambda>references.
           if references \<noteq> [] then Inr (table_header @ nl @ join nl references)
           else Inr msg_unparseable))))
       else Inr msg_unsupported))"

text \<open>
  \<^verbatim>\<open>except json.JSONDecodeError\<close> turns that one exception into the fallback
  string; every other exception leaves the function.
\<close>

definition parse_card_content :: "pylib \<Rightarrow> string \<Rightarrow> error + string" where
  "parse_card_content L content =
     (case card_body L content of
        Inl JSONDecodeError \<Rightarrow> Inr msg_unparseable
      | Inl e \<Rightarrow> Inl e
      | Inr rendered \<Rightarrow> Inr rendered)"

section \<open>A JSON decoder and printer for concrete inputs\<close>

text \<open>
  \<open>json_loads\<close> follows the grammar \<^verbatim>\<open>json.loads\<close> accepts: whitespace is space,
  tab, line feed and carriage return; a value is a string, an object, an array,
  \<^verbatim>\<open>null\<close>, \<^verbatim>\<open>true\<close>, \<^verbatim>\<open>false\<close>, a number, or one of \<^verbatim>\<open>NaN\<close>,
  \<^verbatim>\<open>Infinity\<close>, \<^verbatim>\<open>-Infinity\<close>; text after the value is an error. A
  \<^verbatim>\<open>\uXXXX\<close> escape gives the UTF-8 bytes of its code point. The recursion
  carries a counter that starts above the length of the text, so that every
  function is structurally recursive; \<open>None\<close> is \<^verbatim>\<open>JSONDecodeError\<close>.
\<close>

definition is_ws :: "char \<Rightarrow> bool" where
  "is_ws c = (c \<in> set [CHR '' '', CHR 0x09, CHR 0x0A, CHR 0x0D])"

definition skip_ws :: "string \<Rightarrow> string" where
  "skip_ws s = dropWhile is_ws s"

definition is_digit :: "char \<Rightarrow> bool" where
  "is_digit c = (c \<in> set ''0123456789'')"

definition digits_value :: "string \<Rightarrow> nat" where
  "digits_value ds = foldl (\<lambda>n d. 10 * n + (of_char d - 48)) 0 ds"

definition hex_digit :: "char \<Rightarrow> nat option" where
  "hex_digit c =
     map_of (zip ''0123456789abcdefABCDEF''
                 [0, 1, 2, 3, 4, 5, 6, 7, 8, 9, 10, 11, 12, 13, 14, 15, 10, 11, 12, 13, 14, 15]) c"

fun hex4 :: "string \<Rightarrow> nat option" where
  "hex4 (a # b # c # d # rest) =
     (case (hex_digit a, hex_digit b, hex_digit c, hex_digit d) of
        (Some w, Some x, Some y, Some z) \<Rightarrow> Some (((w * 16 + x) * 16 + y) * 16 + z)
      | _ \<Rightarrow> None)"
| "hex4 s = None"

definition utf8 :: "nat \<Rightarrow> string" where
  "utf8 n =
     (if n < 0x80 then [char_of n]
      else if n < 0x800 then [char_of (0xC0 + n div 64), char_of (0x80 + n mod 64)]
      else if n < 0x10000 then
        [char_of (0xE0 + n div 4096), char_of (0x80 + n div 64 mod 64), char_of (0x80 + n mod 64)]
      else
        [char_of (0xF0 + n div 262144), char_of (0x80 + n div 4096 mod 64),
         char_of (0x80 + n div 64 mod 64), char_of (0x80 + n mod 64)])"

definition escape_char :: "char \<Rightarrow> char option" where
  "escape_char e =
     map_of [(CHR 0x22, CHR 0x22), (CHR 0x5C, CHR 0x5C), (CHR ''/'', CHR ''/''),
             (CHR ''b'', CHR 0x08), (CHR ''f'', CHR 0x0C), (CHR ''n'', CHR 0x0A),
             (CHR ''r'', CHR 0x0D), (CHR ''t'', CHR 0x09)] e"

definition surrogate_pair :: "nat \<Rightarrow> string \<Rightarrow> nat option" where
  \<comment> \<open>a high surrogate followed by an escaped low surrogate is one code point\<close>
  "surrogate_pair hi s =
     (if 0xD800 \<le> hi \<and> hi \<le> 0xDBFF \<and> prefix [CHR 0x5C, CHR ''u''] s then
        (case hex4 (drop 2 s) of
           Some lo \<Rightarrow>
             if 0xDC00 \<le> lo \<and> lo \<le> 0xDFFF
             then Some (0x10000 + (hi - 0xD800) * 1024 + (lo - 0xDC00)) else None
         | None \<Rightarrow> None)
      else None)"

text \<open>The characters of a string literal after its opening quote, up to the closing one.\<close>

fun scan_string :: "string \<Rightarrow> string \<Rightarrow> (string \<times> string) option" where
  "scan_string acc [] = None"
| "scan_string acc (c # cs) =
     (if c = CHR 0x22 then Some (acc, cs)
      else if c = CHR 0x5C then
        (case cs of
           [] \<Rightarrow> None
         | e # es \<Rightarrow>
             if e = CHR ''u'' then
               (case hex4 es of
                  None \<Rightarrow> None
                | Some n \<Rightarrow>
                    (case surrogate_pair n (drop 4 es) of
                       Some code \<Rightarrow> scan_string (acc @ utf8 code) (drop 10 es)
                     | None \<Rightarrow> scan_string (acc @ utf8 n) (drop 4 es)))
             else
               (case escape_char e of
                  None \<Rightarrow> None
                | Some ch \<Rightarrow> scan_string (acc @ [ch]) es))
      else if (of_char c :: nat) < 0x20 then None
      else scan_string (acc @ [c]) cs)"

text \<open>
  A number: \<^verbatim>\<open>-?(0|[1-9][0-9]*)(\.[0-9]+)?([eE][-+]?[0-9]+)?\<close>; an \<^verbatim>\<open>int\<close>
  when it has neither fraction nor exponent.
\<close>

definition scan_fraction :: "string \<Rightarrow> string \<times> string" where
  "scan_fraction s =
     (case s of
        p # d # ds \<Rightarrow>
          if p = CHR ''.'' \<and> is_digit d
          then (p # d # takeWhile is_digit ds, dropWhile is_digit ds) else ([], s)
      | _ \<Rightarrow> ([], s))"

definition scan_exponent :: "string \<Rightarrow> string \<times> string" where
  "scan_exponent s =
     (case s of
        e # r \<Rightarrow>
          if e \<in> set ''eE'' then
            (let sg = (case r of c # cs \<Rightarrow> if c \<in> set ''+-'' then [c] else [] | [] \<Rightarrow> []);
                 r' = drop (length sg) r
             in case r' of
                  d # ds \<Rightarrow>
                    if is_digit d
                    then (e # sg @ d # takeWhile is_digit ds, dropWhile is_digit ds) else ([], s)
                | [] \<Rightarrow> ([], s))
          else ([], s)
      | [] \<Rightarrow> ([], s))"

definition scan_number :: "string \<Rightarrow> (json \<times> string) option" where
  "scan_number s =
     (let sg = (if prefix ''-'' s then ''-'' else []);
          s1 = drop (length sg) s
      in case s1 of
           [] \<Rightarrow> None
         | d # ds \<Rightarrow>
             if \<not> is_digit d then None
             else
               let ipart = (if d = CHR ''0'' then [d] else d # takeWhile is_digit ds);
                   r1 = drop (length ipart) s1;
                   (frac, r2) = scan_fraction r1;
                   (ex, r3) = scan_exponent r2
               in if frac = [] \<and> ex = []
                  then Some (JInt ((if sg = [] then 1 else - 1) * int (digits_value ipart)), r3)
                  else Some (JFloat (sg @ ipart @ frac @ ex), r3))"

fun parse_value :: "nat \<Rightarrow> string \<Rightarrow> (json \<times> string) option"
  and parse_array :: "nat \<Rightarrow> json list \<Rightarrow> string \<Rightarrow> (json list \<times> string) option"
  and parse_object :: "nat \<Rightarrow> (string \<times> json) list \<Rightarrow> string \<Rightarrow> ((string \<times> json) list \<times> string) option"
where
  "parse_value 0 s = None"
| "parse_value (Suc n) s =
     (case s of
        [] \<Rightarrow> None
      | c # cs \<Rightarrow>
          if c = CHR 0x22 then
            (case scan_string [] cs of None \<Rightarrow> None | Some (str, r) \<Rightarrow> Some (JString str, r))
          else if c = CHR ''{'' then
            (if prefix ''}'' (skip_ws cs) then Some (JObject [], drop 1 (skip_ws cs))
             else (case parse_object n [] (skip_ws cs) of
                     None \<Rightarrow> None | Some (members, r) \<Rightarrow> Some (JObject members, r)))
          else if c = CHR ''['' then
            (if prefix '']'' (skip_ws cs) then Some (JArray [], drop 1 (skip_ws cs))
             else (case parse_array n [] (skip_ws cs) of
                     None \<Rightarrow> None | Some (xs, r) \<Rightarrow> Some (JArray xs, r)))
          else if prefix ''null'' s then Some (JNull, drop 4 s)
          else if prefix ''true'' s then Some (JBool True, drop 4 s)
          else if prefix ''false'' s then Some (JBool False, drop 5 s)
          else
            (case scan_number s of
               Some r \<Rightarrow> Some r
             | None \<Rightarrow>
                 if prefix ''NaN'' s then Some (JFloat ''NaN'', drop 3 s)
                 else if prefix ''Infinity'' s then Some (JFloat ''Infinity'', drop 8 s)
                 else if prefix ''-Infinity'' s then Some (JFloat ''-Infinity'', drop 9 s)
                 else None))"
| "parse_array 0 acc s = None"
| "parse_array (Suc n) acc s =
     (case parse_value n s of
        None \<Rightarrow> None
      | Some (v, r) \<Rightarrow>
          (case skip_ws r of
             [] \<Rightarrow> None
           | d # r' \<Rightarrow>
               if d = CHR '']'' then Some (acc @ [v], r')
               else if d = CHR '','' then parse_array n (acc @ [v]) (skip_ws r')
               else None))"
| "parse_object 0 acc s = None"
| "parse_object (Suc n) acc s =
     (case s of
        [] \<Rightarrow> None
      | q # ks \<Rightarrow>
          if q \<noteq> CHR 0x22 then None
          else
            (case scan_string [] ks of
               None \<Rightarrow> None
             | Some (key, r) \<Rightarrow>
                 (case skip_ws r of
                    [] \<Rightarrow> None
                  | colon # r1 \<Rightarrow>
                      if colon \<noteq> CHR '':'' then None
                      else
                        (case parse_value n (skip_ws r1) of
                           None \<Rightarrow> None
                         | Some (v, r2) \<Rightarrow>
                             (case skip_ws r2 of
                                [] \<Rightarrow> None
                              | d # r3 \<Rightarrow>
                                  if d = CHR ''}'' then Some (acc @ [(key, v)], r3)
                                  else if d = CHR '','' then
                                    parse_object n (acc @ [(key, v)]) (skip_ws r3)
                                  else None)))))"

definition json_loads :: "string \<Rightarrow> error + json" where
  "json_loads s =
     (case parse_value (Suc (length s)) (skip_ws s) of
        None \<Rightarrow> Inl JSONDecodeError
      | Some (v, r) \<Rightarrow> if skip_ws r = [] then Inr v else Inl JSONDecodeError)"

text \<open>
  \<open>py_repr\<close> prints a decoded value as Python's \<^verbatim>\<open>repr\<close> does, for values
  whose strings need no escaping and whose dicts have no key twice; a float prints
  as it was written.
\<close>

fun py_repr :: "json \<Rightarrow> string" where
  "py_repr JNull = ''None''"
| "py_repr (JBool b) = (if b then ''True'' else ''False'')"
| "py_repr (JInt i) = show_int i"
| "py_repr (JFloat lit) = lit"
| "py_repr (JString s) = [CHR 0x27] @ s @ [CHR 0x27]"
| "py_repr (JArray xs) = ''['' @ join '', '' (map py_repr xs) @ '']''"
| "py_repr (JObject members) =
     ''{'' @ join '', '' (map (\<lambda>(k, v). [CHR 0x27] @ k @ [CHR 0x27] @ '': '' @ py_repr v) members) @ ''}''"

definition py :: pylib where
  "py = \<lparr>loads = json_loads, repr_of = py_repr\<rparr>"

section \<open>The model catalog\<close>

definition supported_models :: "string list" where
  "supported_models =
     [''deepseek-r1'', ''deepseek-r1-search'',
      ''deepseek-v3'', ''deepseek-v3-search'',
      ''doubao'', ''doubao-search'',
      ''doubao-thinking'', ''doubao-thinking-search'',
      ''qwen-plus'', ''qwen-plus-search'',
      ''qwq-plus'', ''qwq-plus-search'',
      ''qwen-long'', ''qwen-long-search'',
      ''moonshot-v1-32k'', ''moonshot-v1-32k-search'',
      ''ernie-4.5-turbo-32k'', ''ernie-4.5-turbo-32k-search'']"

text \<open>\<^verbatim>\<open>model_to_user_action\<close>: public model name, then \<^verbatim>\<open>'model'\<close> and \<^verbatim>\<open>'user_action'\<close>.\<close>

definition model_to_user_action :: "(string \<times> string \<times> string list) list" where
  "model_to_user_action =
     [(''deepseek-r1'', ''deepseek'', [''deep'']),
      (''deepseek-r1-search'', ''deepseek'', [''deep'', ''online'']),
      (''deepseek-v3'', ''deepseek'', []),
      (''deepseek-v3-search'', ''deepseek'', [''online'']),
      (''doubao'', ''doubao'', []),
      (''doubao-search'', ''doubao'', [''online'']),
      (''doubao-thinking'', ''doubao-thinking'', [''deep'']),
      (''doubao-thinking-search'', ''doubao-thinking'', [''deep'', ''online'']),
      (''qwen'', ''qwen'', []),
      (''qwen-search'', ''qwen'', [''online'']),
      (''qwen-plus'', ''qwen-plus'', []),
      (''qwen-plus-search'', ''qwen-plus'', [''online'']),
      (''qwq-plus'', ''qwq-plus'', [''deep'']),
      (''qwq-plus-search'', ''qwq-plus'', [''deep'', ''search'']),
      (''qwen-long'', ''qwen-long'', []),
      (''qwen-long-search'', ''qwen-long'', [''online'']),
      (''moonshot-v1-32k'', ''moonshot'', []),
      (''moonshot-v1-32k-search'', ''moonshot'', [''online'']),
      (''ernie-4.5-turbo-32k'', ''ernie-4.5-turbo'', []),
      (''ernie-4.5-turbo-32k-search'', ''ernie-4.5-turbo'', [''online''])]"

text \<open>
  The specification's "deep-reasoning" capability of a catalog entry: its
  \<^verbatim>\<open>user_action\<close> contains \<^verbatim>\<open>"deep"\<close>.
\<close>

definition deep_reasoning :: "string \<Rightarrow> bool" where
  "deep_reasoning m =
     (case map_of model_to_user_action m of
        Some (backend, user_action) \<Rightarrow> ''deep'' \<in> set user_action
      | None \<Rightarrow> False)"

section \<open>Output chunks: \<^verbatim>\<open>generate_chunk\<close>\<close>

text \<open>
  The dict that \<^verbatim>\<open>generate_chunk\<close> serialises into one SSE line
  \<^verbatim>\<open>data: {...}\<close>; \<^verbatim>\<open>choices\<close> has the one entry with index 0, whose
  \<^verbatim>\<open>delta\<close> is \<^verbatim>\<open>{"role": r}\<close>, \<^verbatim>\<open>{"content": c}\<close> or \<^verbatim>\<open>{}\<close>.
\<close>

datatype delta = DeltaRole string | DeltaContent string | DeltaEmpty

record chunk =
  chunk_id :: string
  chunk_object :: string
  chunk_created :: int
  chunk_model :: string
  chunk_delta :: delta
  chunk_finish_reason :: "string option"

definition generate_chunk :: "string \<Rightarrow> int \<Rightarrow> string \<Rightarrow> delta \<Rightarrow> string option \<Rightarrow> chunk" where
  "generate_chunk cid created model d finish =
     \<lparr>chunk_id = cid, chunk_object = ''chat.completion.chunk'', chunk_created = created,
      chunk_model = model, chunk_delta = d, chunk_finish_reason = finish\<rparr>"

section \<open>The upstream response and the segmenter state\<close>

text \<open>
  The upstream chat call as the code sees it: \<^verbatim>\<open>response.status_code\<close> and the
  lines \<^verbatim>\<open>response.aiter_lines()\<close> delivers.
\<close>

record upstream =
  status_code :: int
  aiter_lines :: "string list"

text \<open>The local variables \<^verbatim>\<open>thinking\<close>, \<^verbatim>\<open>content_parts\<close> and \<^verbatim>\<open>card_content\<close>.\<close>

record seg_state =
  thinking :: bool
  content_parts :: "string list"
  card_content :: "string option"

definition initial_state :: seg_state where
  "initial_state = \<lparr>thinking = False, content_parts = [], card_content = None\<rparr>"

definition is_r1 :: "string \<Rightarrow> bool" where
  \<comment> \<open>\<^verbatim>\<open>request.model in ["deepseek-r1", "deepseek-r1-search"]\<close>\<close>
  "is_r1 model = (model \<in> set [''deepseek-r1'', ''deepseek-r1-search''])"

text \<open>
  \<^verbatim>\<open>re.sub(r"<details>.*?</details>", "", content, flags=re.DOTALL)\<close>; the
  argument is whatever true value \<^verbatim>\<open>data.get("content")\<close> gave, and
  \<^verbatim>\<open>re.sub\<close> raises \<^verbatim>\<open>TypeError\<close> on anything but a string.
\<close>

fun re_sub_details :: "json \<Rightarrow> error + string" where
  "re_sub_details (JString s) = Inr (re_sub_span ''<details>'' ''</details>'' s)"
| "re_sub_details x = Inl TypeError"

section \<open>Streaming: \<^verbatim>\<open>stream_response\<close>\<close>

text \<open>
  The body of the \<^verbatim>\<open>try\<close> block for one \<^verbatim>\<open>data:\<close> line: the new state and the
  chunks yielded, or the exception raised. Every exception of the block is raised
  before the block changes a variable or yields.
\<close>

definition stream_event ::
  "pylib \<Rightarrow> string \<Rightarrow> int \<Rightarrow> string \<Rightarrow> bool \<Rightarrow> seg_state \<Rightarrow> string \<Rightarrow> error + seg_state \<times> chunk list" where
  "stream_event L cid created model is_r1_model st json_str =
     ebind (loads L json_str) (\<lambda>data.
     ebind (py_get data ''content'' JNull) (\<lambda>c.
       let raw = (if truthy c then c else JString []) in
       if truthy raw then
         ebind (re_sub_details raw) (\<lambda>content.
         ebind (py_get data ''content_type'' JNull) (\<lambda>content_type.
           if content_type = JString ''thinking'' then
             (let (st1, out1) =
                (if \<not> thinking st
                 then (st\<lparr>thinking := True, content_parts := content_parts st @ [''<think>'']\<rparr>,
                       [generate_chunk cid created model (DeltaContent ''<think>'') None])
                 else (st, []))
              in Inr (st1\<lparr>content_parts := content_parts st1 @ [content]\<rparr>,
                      out1 @ [generate_chunk cid created model (DeltaContent content) None]))
           else if content_type = JString ''text'' then
             (let (st1, out1) =
                (if thinking st
                 then (st\<lparr>thinking := False, content_parts := content_parts st @ [''</think>'']\<rparr>,
                       [generate_chunk cid created model (DeltaContent ''</think>'') None])
                 else (st, []))
              in Inr (st1\<lparr>content_parts := content_parts st1 @ [content]\<rparr>,
                      out1 @ [generate_chunk cid created model (DeltaContent content) None]))
           else if content_type = JString ''card'' then
             ebind (parse_card_content L content) (\<lambda>parsed_content.
               if is_r1_model then Inr (st\<lparr>card_content := Some parsed_content\<rparr>, [])
               else Inr (st\<lparr>content_parts := content_parts st @ [parsed_content @ nl @ nl]\<rparr>,
                         [generate_chunk cid created model
                            (DeltaContent (parsed_content @ nl @ nl)) None]))
           else Inr (st, [])))
       else Inr (st, [])))"

text \<open>
  One iteration of \<^verbatim>\<open>async for line in response.aiter_lines()\<close>: a line that
  does not start with \<^verbatim>\<open>data:\<close> is passed over; \<^verbatim>\<open>except json.JSONDecodeError:
  continue\<close> passes over a line whose block raised that exception.
\<close>

definition stream_line ::
  "pylib \<Rightarrow> string \<Rightarrow> int \<Rightarrow> string \<Rightarrow> bool \<Rightarrow> seg_state \<Rightarrow> string \<Rightarrow> error + seg_state \<times> chunk list" where
  "stream_line L cid created model is_r1_model st line =
     (if prefix ''data:'' line then
        (case stream_event L cid created model is_r1_model st (drop 5 line) of
           Inl JSONDecodeError \<Rightarrow> Inr (st, [])
         | Inl e \<Rightarrow> Inl e
         | Inr r \<Rightarrow> Inr r)
      else Inr (st, []))"

text \<open>
  The loop over the lines: the chunks yielded so far and either the state at the
  end of the lines or the exception that ended the generator.
\<close>

fun stream_lines ::
  "pylib \<Rightarrow> string \<Rightarrow> int \<Rightarrow> string \<Rightarrow> bool \<Rightarrow> seg_state \<Rightarrow> string list
     \<Rightarrow> chunk list \<times> (error + seg_state)" where
  "stream_lines L cid created model is_r1_model st [] = ([], Inr st)"
| "stream_lines L cid created model is_r1_model st (line # rest) =
     (case stream_line L cid created model is_r1_model st line of
        Inl e \<Rightarrow> ([], Inl e)
      | Inr (st', out) \<Rightarrow>
          (case stream_lines L cid created model is_r1_model st' rest of
             (out', r) \<Rightarrow> (out @ out', r)))"

text \<open>What the generator yields after the loop.\<close>

definition stream_finish :: "string \<Rightarrow> int \<Rightarrow> string \<Rightarrow> bool \<Rightarrow> seg_state \<Rightarrow> chunk list" where
  "stream_finish cid created model is_r1_model st =
     (if thinking st then [generate_chunk cid created model (DeltaContent ''</think>'') None] else [])
     @ (case card_content st of
          Some pending \<Rightarrow>
            if is_r1_model \<and> pending \<noteq> []
            then [generate_chunk cid created model (DeltaContent (pending @ nl @ nl)) None] else []
        | None \<Rightarrow> [])
     @ [generate_chunk cid created model DeltaEmpty (Some ''stop'')]"

definition stream_error_msg :: "int \<Rightarrow> string" where
  "stream_error_msg status =
     [CHR 0xE9, CHR 0x94, CHR 0x99, CHR 0xE8, CHR 0xAF, CHR 0xAF, CHR 0xEF, CHR 0xBC, CHR 0x9A,
      CHR 0xE6, CHR 0x97, CHR 0xA0, CHR 0xE6, CHR 0xB3, CHR 0x95, CHR 0xE8, CHR 0x8E, CHR 0xB7,
      CHR 0xE5, CHR 0x8F, CHR 0x96, CHR 0xE5, CHR 0x93, CHR 0x8D, CHR 0xE5, CHR 0xBA, CHR 0x94,
      CHR 0xEF, CHR 0xBC, CHR 0x8C, CHR 0xE7, CHR 0x8A, CHR 0xB6, CHR 0xE6, CHR 0x80, CHR 0x81,
      CHR 0xE7, CHR 0xA0, CHR 0x81] @ '': '' @ show_int status"

text \<open>
  The generator: the chunks it yields, in order, and the exception that ended it,
  if one did. \<open>cid\<close> is the fresh \<^verbatim>\<open>chatcmpl-...\<close> identifier and \<open>created\<close> the
  time stamp.
\<close>

definition stream_response ::
  "pylib \<Rightarrow> string \<Rightarrow> int \<Rightarrow> string \<Rightarrow> upstream \<Rightarrow> chunk list \<times> error option" where
  "stream_response L cid created model response =
     (let first = generate_chunk cid created model (DeltaRole ''assistant'') None;
          is_r1_model = is_r1 model
      in if status_code response \<noteq> 200 then
           ([first,
             generate_chunk cid created model
               (DeltaContent (stream_error_msg (status_code response))) (Some ''stop'')],
            None)
         else
           (case stream_lines L cid created model is_r1_model initial_state (aiter_lines response) of
              (out, Inl e) \<Rightarrow> (first # out, Some e)
            | (out, Inr st) \<Rightarrow>
                (first # out @ stream_finish cid created model is_r1_model st, None)))"

section \<open>The endpoint: \<^verbatim>\<open>chat_completions\<close>\<close>

text \<open>The non-streaming loop body, its \<^verbatim>\<open>try\<close> block first.\<close>

definition completion_event :: "pylib \<Rightarrow> bool \<Rightarrow> seg_state \<Rightarrow> string \<Rightarrow> error + seg_state" where
  "completion_event L is_r1_model st json_str =
     ebind (loads L json_str) (\<lambda>data.
     ebind (py_get data ''content'' JNull) (\<lambda>c.
       let raw = (if truthy c then c else JString []) in
       if truthy raw then
         ebind (re_sub_details raw) (\<lambda>content.
         ebind (py_get data ''content_type'' JNull) (\<lambda>content_type.
           if content_type = JString ''thinking'' then
             (let st1 =
                (if \<not> thinking st
                 then st\<lparr>thinking := True, content_parts := content_parts st @ [''<think>'']\<rparr>
                 else st)
              in Inr (st1\<lparr>content_parts := content_parts st1 @ [content]\<rparr>))
           else if content_type = JString ''text'' then
             (let st1 =
                (if thinking st
                 then st\<lparr>thinking := False, content_parts := content_parts st @ [''</think>'']\<rparr>
                 else st)
              in Inr (st1\<lparr>content_parts := content_parts st1 @ [content]\<rparr>))
           else if content_type = JString ''card'' then
             ebind (parse_card_content L content) (\<lambda>parsed_content.
               if is_r1_model then Inr (st\<lparr>card_content := Some parsed_content\<rparr>)
               else Inr (st\<lparr>content_parts := content_parts st @ [parsed_content @ nl @ nl]\<rparr>))
           else Inr st))
       else Inr st))"

definition completion_line :: "pylib \<Rightarrow> bool \<Rightarrow> seg_state \<Rightarrow> string \<Rightarrow> error + seg_state" where
  "completion_line L is_r1_model st line =
     (if prefix ''data:'' line then
        (case completion_event L is_r1_model st (drop 5 line) of
           Inl JSONDecodeError \<Rightarrow> Inr st
         | Inl e \<Rightarrow> Inl e
         | Inr st' \<Rightarrow> Inr st')
      else Inr st)"

fun completion_lines :: "pylib \<Rightarrow> bool \<Rightarrow> seg_state \<Rightarrow> string list \<Rightarrow> error + seg_state" where
  "completion_lines L is_r1_model st [] = Inr st"
| "completion_lines L is_r1_model st (line # rest) =
     (case completion_line L is_r1_model st line of
        Inl e \<Rightarrow> Inl e
      | Inr st' \<Rightarrow> completion_lines L is_r1_model st' rest)"

text \<open>The text joined after the loop: \<^verbatim>\<open>"".join(content_parts)\<close>.\<close>

definition completion_content :: "bool \<Rightarrow> seg_state \<Rightarrow> string" where
  "completion_content is_r1_model st =
     (let parts1 = (if thinking st then content_parts st @ [''</think>''] else content_parts st);
          parts2 = (case card_content st of
                      Some pending \<Rightarrow>
                        if is_r1_model \<and> pending \<noteq> [] then parts1 @ [pending @ nl @ nl] else parts1
                    | None \<Rightarrow> parts1)
      in concat parts2)"

definition completion_error_msg :: "int \<Rightarrow> string" where
  "completion_error_msg status =
     [CHR 0xE6, CHR 0x97, CHR 0xA0, CHR 0xE6, CHR 0xB3, CHR 0x95, CHR 0xE4, CHR 0xBB, CHR 0x8E]
     @ '' API '' @
     [CHR 0xE8, CHR 0x8E, CHR 0xB7, CHR 0xE5, CHR 0x8F, CHR 0x96, CHR 0xE5, CHR 0x93, CHR 0x8D,
      CHR 0xE5, CHR 0xBA, CHR 0x94, CHR 0xEF, CHR 0xBC, CHR 0x8C, CHR 0xE7, CHR 0x8A, CHR 0xB6,
      CHR 0xE6, CHR 0x80, CHR 0x81, CHR 0xE7, CHR 0xA0, CHR 0x81] @ '': '' @ show_int status"

text \<open>
  \<^verbatim>\<open>response_data\<close> of the non-streaming path: \<^verbatim>\<open>choices\<close> has the one
  entry with index 0 and \<^verbatim>\<open>usage\<close> is three zeros.
\<close>

record completion =
  completion_id :: string
  completion_object :: string
  completion_created :: int
  completion_model :: string
  message_role :: string
  message_content :: string
  finish_reason :: string

record chat_request =
  req_model :: string
  req_messages :: "message list"
  req_stream :: bool

text \<open>
  What the endpoint hands to the HTTP layer: a streaming response (the chunks the
  generator yields and the exception that ended it, if any) or the JSON object;
  \<open>Inl\<close> is an exception raised by the handler itself.
\<close>

datatype response =
    StreamingResponse "chunk list" "error option"
  | JsonResponse completion

text \<open>
  \<open>conversation\<close> is the outcome of \<^verbatim>\<open>create_conversation\<close> (the conversation
  identifier, or the \<^verbatim>\<open>HTTPException\<close> it raises) and \<open>response\<close> the upstream
  answer to the chat call; the identifier and the time stamp are \<open>cid\<close> and
  \<open>created\<close>.
\<close>

definition chat_completions ::
  "pylib \<Rightarrow> string \<Rightarrow> int \<Rightarrow> chat_request \<Rightarrow> error + string \<Rightarrow> upstream \<Rightarrow> error + response" where
  "chat_completions L cid created request conversation response =
     (let model = (if req_model request \<notin> set supported_models then ''deepseek-v3''
                   else req_model request)
      in ebind conversation (\<lambda>conversation_id.
           if req_stream request then
             (case stream_response L cid created model response of
                (chunks, err) \<Rightarrow> Inr (StreamingResponse chunks err))
           else
             let is_r1_model = is_r1 model in
             if status_code response \<noteq> 200 then
               Inl (HTTPException 500 (completion_error_msg (status_code response)))
             else
               ebind (completion_lines L is_r1_model initial_state (aiter_lines response)) (\<lambda>st.
                 Inr (JsonResponse
                   \<lparr>completion_id = cid, completion_object = ''chat.completion'',
                    completion_created = created, completion_model = model,
                    message_role = ''assistant'',
                    message_content = completion_content is_r1_model st,
                    finish_reason = ''stop''\<rparr>))))"

section \<open>Reading the output\<close>

text \<open>
  The content fragment a chunk carries (\<^verbatim>\<open>delta.content\<close>, nothing for the role
  chunk and for an empty delta), and the text a client obtains by concatenating the
  fragments of the chunks in order.
\<close>

definition fragment_text :: "chunk \<Rightarrow> string" where
  "fragment_text c = (case chunk_delta c of DeltaContent txt \<Rightarrow> txt | _ \<Rightarrow> [])"

definition streamed_text :: "chunk list \<Rightarrow> string" where
  "streamed_text chunks = concat (map fragment_text chunks)"

section \<open>Sequencing of exceptions\<close>

lemma ebind_Inl [simp]: "ebind (Inl e) f = Inl e"
  by (simp add: ebind_def)

lemma ebind_Inr [simp]: "ebind (Inr x) f = f x"
  by (simp add: ebind_def)

lemma ebind_eq_Inr: "ebind m f = Inr y \<longleftrightarrow> (\<exists>x. m = Inr x \<and> f x = Inr y)"
  by (cases m) simp_all

section \<open>Properties of the truncation\<close>

lemma total_chars_append: "total_chars (xs @ ys) = total_chars xs + total_chars ys"
  by (simp add: total_chars_def)

text \<open>
  What the loop maintains: with \<open>acc\<close> the messages kept so far and \<open>cur\<close>
  their character count, the result is a run of the most recent messages still
  to visit, put in original order in front of \<open>acc\<close>, within the budget.
\<close>

lemma truncate_loop_inv:
  "cur = total_chars acc \<Longrightarrow>
   \<exists>k. truncate_loop todo avail acc cur = rev (take k todo) @ acc \<and>
       (cur \<le> avail \<longrightarrow> total_chars (truncate_loop todo avail acc cur) \<le> avail)"
proof (induction todo arbitrary: acc cur)
  case Nil
  then show ?case by simp
next
  case (Cons msg rest)
  show ?case
  proof (cases "cur + int (length (msg_content msg)) \<le> avail")
    case True
    have "cur + int (length (msg_content msg)) = total_chars (msg # acc)"
      using Cons.prems by (simp add: total_chars_def)
    from Cons.IH [OF this] obtain k where
      k: "truncate_loop rest avail (msg # acc) (cur + int (length (msg_content msg)))
            = rev (take k rest) @ msg # acc"
         "total_chars (truncate_loop rest avail (msg # acc) (cur + int (length (msg_content msg)))) \<le> avail"
      using True by auto
    have "truncate_loop (msg # rest) avail acc cur = rev (take (Suc k) (msg # rest)) @ acc"
      using True k(1) by simp
    moreover have "total_chars (truncate_loop (msg # rest) avail acc cur) \<le> avail"
      using True k(2) by simp
    ultimately show ?thesis by blast
  next
    case False
    then have "truncate_loop (msg # rest) avail acc cur = rev (take 0 (msg # rest)) @ acc"
      by simp
    then show ?thesis using False Cons.prems by auto
  qed
qed

lemma truncate_loop_suffix:
  "suffix (truncate_loop (rev ua) avail [] 0) ua"
proof -
  obtain k where "truncate_loop (rev ua) avail [] 0 = rev (take k (rev ua)) @ []"
    using truncate_loop_inv [of 0 "[]" "rev ua" avail] by (auto simp: total_chars_def)
  then have "truncate_loop (rev ua) avail [] 0 = drop (length ua - k) ua"
    by (simp add: take_rev)
  then show ?thesis by (simp add: suffix_drop)
qed

lemma truncate_loop_budget:
  "0 \<le> avail \<Longrightarrow> total_chars (truncate_loop (rev ua) avail [] 0) \<le> avail"
  using truncate_loop_inv [of 0 "[]" "rev ua" avail] by (auto simp: total_chars_def)

lemma filter_ua_of_suffix:
  "suffix kept (filter is_ua ms) \<Longrightarrow> filter is_ua kept = kept"
proof -
  assume "suffix kept (filter is_ua ms)"
  then have "set kept \<subseteq> set (filter is_ua ms)" by (rule set_mono_suffix)
  then show ?thesis by (auto intro: filter_True)
qed

text \<open>
  C6. Within the budget the input comes back unchanged. Over the budget the result
  is the preserved (non-user, non-assistant) messages, all of them and in original
  order, followed by the retained user/assistant messages, which are a trailing
  suffix of the original user/assistant messages; the total character count is
  within the budget unless the preserved messages alone exceed it, and then the
  result is exactly the preserved messages.
\<close>

theorem truncate_messages_spec:
  "(total_chars ms \<le> budget \<longrightarrow> truncate_messages ms budget = ms) \<and>
   (budget < total_chars ms \<longrightarrow>
      truncate_messages ms budget =
        filter (\<lambda>m. \<not> is_ua m) ms @ filter is_ua (truncate_messages ms budget) \<and>
      suffix (filter is_ua (truncate_messages ms budget)) (filter is_ua ms) \<and>
      (total_chars (filter (\<lambda>m. \<not> is_ua m) ms) \<le> budget \<longrightarrow>
         total_chars (truncate_messages ms budget) \<le> budget) \<and>
      (budget < total_chars (filter (\<lambda>m. \<not> is_ua m) ms) \<longrightarrow>
         truncate_messages ms budget = filter (\<lambda>m. \<not> is_ua m) ms))"
proof (intro conjI impI)
  assume "total_chars ms \<le> budget"
  then show "truncate_messages ms budget = ms" by (simp add: truncate_messages_def)
next
  let ?others = "filter (\<lambda>m. \<not> is_ua m) ms"
  let ?avail = "budget - total_chars ?others"
  let ?kept = "truncate_loop (rev (filter is_ua ms)) ?avail [] 0"
  assume over: "budget < total_chars ms"
  have res: "truncate_messages ms budget = (if ?avail \<le> 0 then ?others else ?others @ ?kept)"
    using over by (simp add: truncate_messages_def Let_def)
  have kept_suffix: "suffix ?kept (filter is_ua ms)" by (rule truncate_loop_suffix)
  have kept_ua: "filter is_ua ?kept = ?kept" using kept_suffix by (rule filter_ua_of_suffix)
  have ua_res: "filter is_ua (truncate_messages ms budget) = (if ?avail \<le> 0 then [] else ?kept)"
    using res kept_ua by simp
  show "truncate_messages ms budget = ?others @ filter is_ua (truncate_messages ms budget)"
    using res ua_res by simp
  show "suffix (filter is_ua (truncate_messages ms budget)) (filter is_ua ms)"
    using ua_res kept_suffix by simp
  show "total_chars (truncate_messages ms budget) \<le> budget"
    if "total_chars ?others \<le> budget"
  proof (cases "?avail \<le> 0")
    case True
    then show ?thesis using res that by simp
  next
    case False
    then have "total_chars ?kept \<le> ?avail" by (intro truncate_loop_budget) simp
    then show ?thesis using res False by (simp add: total_chars_append)
  qed
  show "truncate_messages ms budget = ?others" if "budget < total_chars ?others"
    using res that by simp
qed

theorem truncate_messages_spec_witness:
  "total_chars [\<lparr>msg_role = System, msg_content = ''ab''\<rparr>, \<lparr>msg_role = User, msg_content = ''cd''\<rparr>] \<le> 10 \<and>
   truncate_messages [\<lparr>msg_role = System, msg_content = ''ab''\<rparr>, \<lparr>msg_role = User, msg_content = ''cd''\<rparr>] 10
     = [\<lparr>msg_role = System, msg_content = ''ab''\<rparr>, \<lparr>msg_role = User, msg_content = ''cd''\<rparr>] \<and>
   5 < total_chars [\<lparr>msg_role = User, msg_content = ''cdef''\<rparr>, \<lparr>msg_role = System, msg_content = ''ab''\<rparr>,
                    \<lparr>msg_role = Assistant, msg_content = ''gh''\<rparr>, \<lparr>msg_role = User, msg_content = ''i''\<rparr>] \<and>
   total_chars (filter (\<lambda>m. \<not> is_ua m)
      [\<lparr>msg_role = User, msg_content = ''cdef''\<rparr>, \<lparr>msg_role = System, msg_content = ''ab''\<rparr>,
       \<lparr>msg_role = Assistant, msg_content = ''gh''\<rparr>, \<lparr>msg_role = User, msg_content = ''i''\<rparr>]) \<le> 5 \<and>
   total_chars (truncate_messages
      [\<lparr>msg_role = User, msg_content = ''cdef''\<rparr>, \<lparr>msg_role = System, msg_content = ''ab''\<rparr>,
       \<lparr>msg_role = Assistant, msg_content = ''gh''\<rparr>, \<lparr>msg_role = User, msg_content = ''i''\<rparr>] 5) \<le> 5 \<and>
   truncate_messages
      [\<lparr>msg_role = User, msg_content = ''cdef''\<rparr>, \<lparr>msg_role = System, msg_content = ''ab''\<rparr>,
       \<lparr>msg_role = Assistant, msg_content = ''gh''\<rparr>, \<lparr>msg_role = User, msg_content = ''i''\<rparr>] 5
     = [\<lparr>msg_role = System, msg_content = ''ab''\<rparr>, \<lparr>msg_role = Assistant, msg_content = ''gh''\<rparr>,
        \<lparr>msg_role = User, msg_content = ''i''\<rparr>] \<and>
   3 < total_chars (filter (\<lambda>m. \<not> is_ua m)
      [\<lparr>msg_role = User, msg_content = ''x''\<rparr>, \<lparr>msg_role = System, msg_content = ''abcdef''\<rparr>]) \<and>
   truncate_messages [\<lparr>msg_role = User, msg_content = ''x''\<rparr>, \<lparr>msg_role = System, msg_content = ''abcdef''\<rparr>] 3
     = [\<lparr>msg_role = System, msg_content = ''abcdef''\<rparr>]"
  using
    truncate_messages_spec [of "[\<lparr>msg_role = System, msg_content = ''ab''\<rparr>, \<lparr>msg_role = User, msg_content = ''cd''\<rparr>]" 10]
    truncate_messages_spec [of "[\<lparr>msg_role = User, msg_content = ''cdef''\<rparr>, \<lparr>msg_role = System, msg_content = ''ab''\<rparr>,
       \<lparr>msg_role = Assistant, msg_content = ''gh''\<rparr>, \<lparr>msg_role = User, msg_content = ''i''\<rparr>]" 5]
    truncate_messages_spec [of "[\<lparr>msg_role = User, msg_content = ''x''\<rparr>, \<lparr>msg_role = System, msg_content = ''abcdef''\<rparr>]" 3]
  by (simp add: total_chars_def is_ua_def truncate_messages_def)

section \<open>Properties of the regular-expression removal\<close>

text \<open>
  \<open>after_first\<close> finds an occurrence of the pattern whenever there is one, and
  returns what follows it. \<open>re_sub_span\<close> removes a span that starts where the opening
  tag stands, up to the first closing tag behind it, and goes on behind the span; a
  string without a closing tag is left as it is.
\<close>

lemma after_first_sound: "after_first pat s = Some r \<Longrightarrow> \<exists>a. s = a @ pat @ r"
proof (induction s)
  case Nil
  then show ?case by (simp split: if_splits)
next
  case (Cons c cs)
  show ?case
  proof (cases "prefix pat (c # cs)")
    case True
    then have "r = drop (length pat) (c # cs)" using Cons.prems by simp
    moreover have "c # cs = pat @ drop (length pat) (c # cs)"
      using True by (metis append_eq_conv_conj prefix_def)
    ultimately show ?thesis by (metis append_Nil)
  next
    case False
    then have "after_first pat cs = Some r" using Cons.prems by simp
    then obtain a where "cs = a @ pat @ r" using Cons.IH by blast
    then have "c # cs = (c # a) @ pat @ r" by simp
    then show ?thesis by blast
  qed
qed

lemma after_first_suffix_None: "after_first pat (a @ s) = None \<Longrightarrow> after_first pat s = None"
  by (induction a) (auto split: if_splits)

lemma after_first_here: "after_first pat (pat @ r) = Some r"
proof (cases "pat @ r")
  case Nil
  then show ?thesis by simp
next
  case (Cons c cs)
  have "prefix pat (c # cs)" using Cons by (metis prefixI)
  moreover have "drop (length pat) (c # cs) = r" using Cons by (metis append_eq_conv_conj)
  ultimately show ?thesis using Cons by simp
qed

lemma after_first_complete: "after_first pat (a @ pat @ r) \<noteq> None"
  by (induction a) (simp_all add: after_first_here)

lemma re_sub_span_match:
  "opn \<noteq> [] \<Longrightarrow> after_first cls body = Some r \<Longrightarrow>
   re_sub_span opn cls (opn @ body) = re_sub_span opn cls r"
  by (cases opn) simp_all

lemma re_sub_span_unclosed: "after_first cls s = None \<Longrightarrow> re_sub_span opn cls s = s"
proof (induction opn cls s rule: re_sub_span.induct)
  case (1 opn cls)
  then show ?case by simp
next
  case (2 opn cls c cs)
  have tail: "after_first cls cs = None"
    using "2.prems" after_first_suffix_None [of cls "[c]" cs] by simp
  have "after_first cls (drop (length opn) (c # cs)) = None"
    using "2.prems" after_first_suffix_None [of cls "take (length opn) (c # cs)" "drop (length opn) (c # cs)"]
    by simp
  then show ?case using "2.IH" tail by simp
qed

section \<open>Properties of the flattener\<close>

lemma join_snoc: "join sep (xs @ [x]) = (if xs = [] then x else join sep xs @ sep @ x)"
  by (induction sep xs rule: join.induct) auto

text \<open>
  The loop appends, to what it was given, the lines of the messages whose remaining
  content is not empty, in the order of the messages.
\<close>

lemma concatenate_loop_lines:
  "concatenate_loop ms acc =
     acc @ map (\<lambda>m. capitalize (role_str (msg_role m)) @ '': '' @ remaining_content m)
             (filter (\<lambda>m. remaining_content m \<noteq> []) ms)"
  by (induction ms arbitrary: acc) (simp_all add: remaining_content_def Let_def)

text \<open>
  C7. The flattener keeps the order of the messages; of each message it takes what
  remains once every \<^verbatim>\<open><think>...</think>\<close> span is removed (shortest match,
  newlines included) and the surrounding whitespace is trimmed; a message of which
  nothing remains gives no line at all, every other message gives the line made of
  its capitalised role, a colon, a space and the remaining content; the lines are
  joined by single newlines.
\<close>

theorem concatenate_messages_spec:
  "concatenate_messages ms =
     join nl (map (\<lambda>m. capitalize (role_str (msg_role m)) @ '': '' @ remaining_content m)
                  (filter (\<lambda>m. remaining_content m \<noteq> []) ms))"
  by (simp add: concatenate_messages_def concatenate_loop_lines)

theorem concatenate_messages_spec_witness:
  "remaining_content \<lparr>msg_role = User, msg_content = ''<think>x</think>   ''\<rparr> = [] \<and>
   remaining_content
     \<lparr>msg_role = Assistant, msg_content = ''a<think>x'' @ nl @ ''y</think>b<think>z</think>c</think>  ''\<rparr>
     = ''abc</think>'' \<and>
   concatenate_messages
     [\<lparr>msg_role = System, msg_content = ''  be brief ''\<rparr>,
      \<lparr>msg_role = User, msg_content = ''<think>x</think>   ''\<rparr>,
      \<lparr>msg_role = Assistant, msg_content = ''a<think>x'' @ nl @ ''y</think>b<think>z</think>c</think>  ''\<rparr>]
     = ''System: be brief'' @ nl @ ''Assistant: abc</think>''"
  using concatenate_messages_spec
    [of "[\<lparr>msg_role = System, msg_content = ''  be brief ''\<rparr>,
          \<lparr>msg_role = User, msg_content = ''<think>x</think>   ''\<rparr>,
          \<lparr>msg_role = Assistant, msg_content = ''a<think>x'' @ nl @ ''y</think>b<think>z</think>c</think>  ''\<rparr>]"]
  by (simp add: remaining_content_def py_strip_def is_space_def nl_def upper_char_def lower_char_def)

section \<open>Properties of the authorization check\<close>

lemma str_replace_absent:
  "after_first old s = None \<Longrightarrow> str_replace old new s = s"
  by (induction old new s rule: str_replace.induct) (auto split: if_splits)

text \<open>The check has three outcomes: success, and HTTP 401 with one of two details.\<close>

lemma check_authorization_outcomes:
  "check_authorization key h = Inr True \<or>
   check_authorization key h = Inl (HTTPException 401 detail_missing) \<or>
   check_authorization key h = Inl (HTTPException 401 detail_invalid)"
  by (simp add: check_authorization_def Let_def split: option.splits)

text \<open>
  A bare key is accepted when it does not itself start with \<^verbatim>\<open>"Bearer "\<close>, and
  \<^verbatim>\<open>"Bearer "\<close> followed by the key when the key does not contain \<^verbatim>\<open>"Bearer "\<close>.
\<close>

lemma check_authorization_bare:
  "key \<noteq> [] \<Longrightarrow> \<not> prefix ''Bearer '' key \<Longrightarrow> check_authorization key (Some key) = Inr True"
  by (simp add: check_authorization_def)

lemma check_authorization_bearer:
  "after_first ''Bearer '' key = None \<Longrightarrow>
   check_authorization key (Some (''Bearer '' @ key)) = Inr True"
  by (simp add: check_authorization_def str_replace_absent)

text \<open>
  C9. The claim: the check succeeds exactly when the header is the configured key or
  \<^verbatim>\<open>"Bearer "\<close> followed by it. The code removes every occurrence of
  \<^verbatim>\<open>"Bearer "\<close> from a header that starts with it, not the leading one only: with
  the key \<^verbatim>\<open>k\<close> the header \<^verbatim>\<open>Bearer Bearer k\<close> is accepted, and with the key
  \<^verbatim>\<open>Bearer x\<close> the header \<^verbatim>\<open>Bearer x\<close>, which is the key itself, is rejected
  with HTTP 401.
\<close>

theorem check_authorization_repeated_prefix:
  "check_authorization ''k'' (Some ''Bearer Bearer k'') = Inr True \<and>
   check_authorization ''Bearer x'' (Some ''Bearer x'') = Inl (HTTPException 401 detail_invalid)"
  by (simp add: check_authorization_def)

section \<open>Properties of the card renderer\<close>

lemma py_get_not_object:
  "(\<And>members. v \<noteq> JObject members) \<Longrightarrow> py_get v key dflt = Inl AttributeError"
  by (cases v) auto

text \<open>Text that is not JSON gives the fallback string, whatever the decoder.\<close>

lemma parse_card_content_malformed:
  "loads L s = Inl JSONDecodeError \<Longrightarrow> parse_card_content L s = Inr msg_unparseable"
  by (simp add: parse_card_content_def card_body_def)

text \<open>Valid JSON that is not an object makes the renderer raise, whatever the decoder.\<close>

lemma parse_card_content_not_object:
  "loads L s = Inr v \<Longrightarrow> (\<And>members. v \<noteq> JObject members) \<Longrightarrow>
   parse_card_content L s = Inl AttributeError"
  by (simp add: parse_card_content_def card_body_def py_get_not_object)

text \<open>A rendering, when there is one, is never the empty string.\<close>

lemma parse_card_content_nonempty:
  "parse_card_content L s = Inr r \<Longrightarrow> r \<noteq> []"
  by (auto simp: parse_card_content_def card_body_def ebind_eq_Inr msg_unparseable_def
        msg_unsupported_def table_header_def nl_def split: sum.splits error.splits if_splits)

lemma parse_card_content_never_decode_error:
  "parse_card_content L s \<noteq> Inl JSONDecodeError"
  by (auto simp: parse_card_content_def split: sum.splits error.splits)

text \<open>
  C3. The claim: the renderer returns a string on every input and never raises. Only
  \<^verbatim>\<open>json.JSONDecodeError\<close> is caught: on the inputs \<^verbatim>\<open>[]\<close> and \<^verbatim>\<open>123\<close>, and
  on a card whose \<^verbatim>\<open>cardItems\<close> holds a non-object entry, the call of \<^verbatim>\<open>.get\<close>
  raises \<^verbatim>\<open>AttributeError\<close>, and on a \<^verbatim>\<open>cardItems\<close> that is a number the loop
  raises \<^verbatim>\<open>TypeError\<close>; both leave the function.
\<close>

theorem parse_card_content_raises:
  \<open>parse_card_content py ''[]'' = Inl AttributeError \<and>
   parse_card_content py ''123'' = Inl AttributeError \<and>
   parse_card_content py ''{"cardType":"DB-CARD-2","cardInfo":{"cardItems":[1]}}'' = Inl AttributeError \<and>
   parse_card_content py ''{"cardType":"DB-CARD-2","cardInfo":{"cardItems":7}}'' = Inl TypeError\<close>
  by code_simp

section \<open>Streaming and non-streaming agree\<close>

lemma fragment_text_generate [simp]:
  "fragment_text (generate_chunk cid created model (DeltaContent txt) fin) = txt"
  "fragment_text (generate_chunk cid created model (DeltaRole r) fin) = []"
  "fragment_text (generate_chunk cid created model DeltaEmpty fin) = []"
  by (simp_all add: fragment_text_def generate_chunk_def)

lemma completion_event_stream_event:
  "completion_event L dfr st js =
     (case stream_event L cid created model dfr st js of
        Inl e \<Rightarrow> Inl e | Inr (st', out) \<Rightarrow> Inr st')"
  unfolding completion_event_def stream_event_def
  by (auto simp: ebind_def Let_def split: sum.splits prod.splits)

lemma stream_event_parts:
  "stream_event L cid created model dfr st js = Inr (st', out) \<Longrightarrow>
   content_parts st' = content_parts st @ map fragment_text out"
  unfolding stream_event_def
  by (auto simp: ebind_def Let_def split: sum.splits prod.splits if_splits)


lemma completion_line_stream_line:
  "completion_line L dfr st line =
     (case stream_line L cid created model dfr st line of
        Inl e \<Rightarrow> Inl e | Inr (st', out) \<Rightarrow> Inr st')"
  unfolding completion_line_def stream_line_def
  by (simp add: completion_event_stream_event [of L dfr st _ cid created model]
        split: sum.splits error.splits prod.splits)

lemma stream_line_parts:
  "stream_line L cid created model dfr st line = Inr (st', out) \<Longrightarrow>
   content_parts st' = content_parts st @ map fragment_text out"
  unfolding stream_line_def
  by (auto simp: stream_event_parts split: if_splits sum.splits error.splits)

text \<open>
  The two loops run in step: they end in the same state or with the same exception,
  and the streaming loop has yielded exactly the fragments it appended.
\<close>

lemma completion_lines_stream_lines:
  "completion_lines L dfr st lines = snd (stream_lines L cid created model dfr st lines)"
proof (induction lines arbitrary: st)
  case Nil
  then show ?case by simp
next
  case (Cons line rest)
  show ?case
  proof (cases "stream_line L cid created model dfr st line")
    case (Inl e)
    then show ?thesis
      by (simp add: completion_line_stream_line [of L dfr st line cid created model])
  next
    case (Inr r)
    then obtain st' out where "stream_line L cid created model dfr st line = Inr (st', out)"
      by (cases r) simp
    then show ?thesis
      using Cons.IH [of st']
      by (simp add: completion_line_stream_line [of L dfr st line cid created model]
            split: prod.splits)
  qed
qed

lemma stream_lines_parts:
  "stream_lines L cid created model dfr st lines = (out, Inr st') \<Longrightarrow>
   content_parts st' = content_parts st @ map fragment_text out"
proof (induction lines arbitrary: st out)
  case Nil
  then show ?case by simp
next
  case (Cons line rest)
  from Cons.prems obtain st1 out1 out2 where
    step: "stream_line L cid created model dfr st line = Inr (st1, out1)" and
    rest: "stream_lines L cid created model dfr st1 rest = (out2, Inr st')" and
    out: "out = out1 @ out2"
    by (auto split: sum.splits prod.splits)
  show ?case
    using stream_line_parts [OF step] Cons.IH [OF rest] out by simp
qed

lemma streamed_text_finish:
  "streamed_text (stream_finish cid created model dfr st) =
     concat ((if thinking st then [''</think>''] else []) @
             (case card_content st of
                Some pending \<Rightarrow> if dfr \<and> pending \<noteq> [] then [pending @ nl @ nl] else []
              | None \<Rightarrow> []))"
  by (auto simp: streamed_text_def stream_finish_def split: option.splits)

lemma completion_content_parts:
  "completion_content dfr st =
     concat (content_parts st) @
     concat ((if thinking st then [''</think>''] else []) @
             (case card_content st of
                Some pending \<Rightarrow> if dfr \<and> pending \<noteq> [] then [pending @ nl @ nl] else []
              | None \<Rightarrow> []))"
  by (auto simp: completion_content_def Let_def split: option.splits)

lemma stream_response_completes:
  assumes "status_code response = 200"
    and "completion_lines L (is_r1 model) initial_state (aiter_lines response) = Inr st"
  shows "\<exists>chunks. stream_response L cid created model response = (chunks, None) \<and>
           streamed_text chunks = completion_content (is_r1 model) st"
proof -
  obtain out r where
    run: "stream_lines L cid created model (is_r1 model) initial_state (aiter_lines response) = (out, r)"
    by (cases "stream_lines L cid created model (is_r1 model) initial_state (aiter_lines response)")
  have r: "r = Inr st"
    using assms(2) run
    by (simp add: completion_lines_stream_lines [of L _ _ _ cid created model])
  have parts: "content_parts st = map fragment_text out"
    using stream_lines_parts [of L cid created model "is_r1 model" initial_state _ out st] run r
    by (simp add: initial_state_def)
  have "stream_response L cid created model response =
          (generate_chunk cid created model (DeltaRole ''assistant'') None # out
             @ stream_finish cid created model (is_r1 model) st, None)"
    using assms(1) run r by (simp add: stream_response_def Let_def)
  moreover have
    "streamed_text (generate_chunk cid created model (DeltaRole ''assistant'') None # out
        @ stream_finish cid created model (is_r1 model) st)
     = completion_content (is_r1 model) st"
    using parts streamed_text_finish [of cid created model "is_r1 model" st]
    by (simp add: streamed_text_def completion_content_parts)
  ultimately show ?thesis by simp
qed

text \<open>
  Where the two modes do agree: for the same requested model and the same upstream
  answer, whenever the non-streaming path returns its final message, the streaming
  path runs to its end without an exception, and the content fragments of its
  chunks, concatenated in order, are exactly the content of that message.
\<close>

theorem cross_mode_equivalence:
  assumes "chat_completions L cid created (request\<lparr>req_stream := False\<rparr>) conversation response
             = Inr (JsonResponse msg)"
  shows "\<exists>chunks.
           chat_completions L cid created (request\<lparr>req_stream := True\<rparr>) conversation response
             = Inr (StreamingResponse chunks None) \<and>
           streamed_text chunks = message_content msg"
proof -
  let ?model = "if req_model request \<notin> set supported_models then ''deepseek-v3''
                else req_model request"
  from assms obtain conv where conv: "conversation = Inr conv"
    by (cases conversation) (simp_all add: chat_completions_def)
  from assms conv have ok: "status_code response = 200"
    by (auto simp: chat_completions_def Let_def split: if_splits)
  from assms conv ok obtain st where
    st: "completion_lines L (is_r1 ?model) initial_state (aiter_lines response) = Inr st" and
    msg: "message_content msg = completion_content (is_r1 ?model) st"
    by (auto simp: chat_completions_def Let_def ebind_eq_Inr cong: if_cong)
  from stream_response_completes [OF ok st, of cid created] obtain chunks where
    "stream_response L cid created ?model response = (chunks, None)"
    "streamed_text chunks = completion_content (is_r1 ?model) st"
    by blast
  then show ?thesis using conv msg by (simp add: chat_completions_def Let_def cong: if_cong)
qed

theorem cross_mode_equivalence_witness:
  \<open>chat_completions py ''chatcmpl-1'' 0
     (\<lparr>req_model = ''deepseek-r1'', req_messages = [], req_stream = True\<rparr>\<lparr>req_stream := False\<rparr>)
     (Inr ''conv'')
     \<lparr>status_code = 200,
      aiter_lines = [''data:{"content":"a","content_type":"thinking"}'',
                     ''data:{"content":"{}","content_type":"card"}'',
                     ''data:{"content":"c","content_type":"text"}'']\<rparr>
   = Inr (JsonResponse
       \<lparr>completion_id = ''chatcmpl-1'', completion_object = ''chat.completion'',
        completion_created = 0, completion_model = ''deepseek-r1'',
        message_role = ''assistant'',
        message_content = ''<think>a</think>c'' @ msg_unsupported @ nl @ nl,
        finish_reason = ''stop''\<rparr>) \<and>
   (\<exists>chunks.
      chat_completions py ''chatcmpl-1'' 0
        (\<lparr>req_model = ''deepseek-r1'', req_messages = [], req_stream = True\<rparr>\<lparr>req_stream := True\<rparr>)
        (Inr ''conv'')
        \<lparr>status_code = 200,
         aiter_lines = [''data:{"content":"a","content_type":"thinking"}'',
                        ''data:{"content":"{}","content_type":"card"}'',
                        ''data:{"content":"c","content_type":"text"}'']\<rparr>
      = Inr (StreamingResponse chunks None) \<and>
      streamed_text chunks = ''<think>a</think>c'' @ msg_unsupported @ nl @ nl)\<close>
proof -
  have h: \<open>chat_completions py ''chatcmpl-1'' 0
     (\<lparr>req_model = ''deepseek-r1'', req_messages = [], req_stream = True\<rparr>\<lparr>req_stream := False\<rparr>)
     (Inr ''conv'')
     \<lparr>status_code = 200,
      aiter_lines = [''data:{"content":"a","content_type":"thinking"}'',
                     ''data:{"content":"{}","content_type":"card"}'',
                     ''data:{"content":"c","content_type":"text"}'']\<rparr>
   = Inr (JsonResponse
       \<lparr>completion_id = ''chatcmpl-1'', completion_object = ''chat.completion'',
        completion_created = 0, completion_model = ''deepseek-r1'',
        message_role = ''assistant'',
        message_content = ''<think>a</think>c'' @ msg_unsupported @ nl @ nl,
        finish_reason = ''stop''\<rparr>)\<close>
    by code_simp
  show ?thesis using h cross_mode_equivalence [OF h] by simp
qed

text \<open>
  The other direction, and the exceptional runs: a streaming run that reaches its end
  on an accepted upstream answer has a non-streaming counterpart with the same text,
  and an exception ends both paths alike.
\<close>

lemma stream_response_error:
  assumes "status_code response = 200"
    and "completion_lines L (is_r1 model) initial_state (aiter_lines response) = Inl e"
  shows "\<exists>chunks. stream_response L cid created model response = (chunks, Some e)"
proof -
  obtain out r where
    run: "stream_lines L cid created model (is_r1 model) initial_state (aiter_lines response) = (out, r)"
    by (cases "stream_lines L cid created model (is_r1 model) initial_state (aiter_lines response)")
  have "r = Inl e"
    using assms(2) run
    by (simp add: completion_lines_stream_lines [of L _ _ _ cid created model])
  then show ?thesis using assms(1) run by (simp add: stream_response_def Let_def)
qed

lemma stream_response_completes_converse:
  assumes "status_code response = 200"
    and "stream_response L cid created model response = (chunks, None)"
  shows "\<exists>st. completion_lines L (is_r1 model) initial_state (aiter_lines response) = Inr st \<and>
              completion_content (is_r1 model) st = streamed_text chunks"
proof (cases "completion_lines L (is_r1 model) initial_state (aiter_lines response)")
  case (Inl e)
  from stream_response_error [OF assms(1) Inl, of cid created] assms(2) show ?thesis by simp
next
  case (Inr st)
  from stream_response_completes [OF assms(1) Inr, of cid created] assms(2) Inr
  show ?thesis by auto
qed

text \<open>
  C1. The claim: for every upstream event sequence accepted with HTTP 200 the
  fragments of the streaming path, concatenated, are the content of the final
  message of the non-streaming path. A card event whose content is valid JSON but
  not an object makes the renderer raise (see C3), and neither loop catches the
  exception. On a thinking event followed by such a card event the streaming client
  has received the text \<^verbatim>\<open><think>a\<close> when the generator ends with the
  exception, while the non-streaming call raises the same exception and delivers no
  message at all: the two modes differ in content.
\<close>

theorem cross_mode_divergence:
  \<open>chat_completions py ''chatcmpl-1'' 0
     \<lparr>req_model = ''deepseek-v3'', req_messages = [], req_stream = True\<rparr>
     (Inr ''conv'')
     \<lparr>status_code = 200,
      aiter_lines = [''data:{"content":"a","content_type":"thinking"}'',
                     ''data:{"content":"[]","content_type":"card"}'']\<rparr>
   = Inr (StreamingResponse
       [generate_chunk ''chatcmpl-1'' 0 ''deepseek-v3'' (DeltaRole ''assistant'') None,
        generate_chunk ''chatcmpl-1'' 0 ''deepseek-v3'' (DeltaContent ''<think>'') None,
        generate_chunk ''chatcmpl-1'' 0 ''deepseek-v3'' (DeltaContent ''a'') None]
       (Some AttributeError)) \<and>
   streamed_text
     [generate_chunk ''chatcmpl-1'' 0 ''deepseek-v3'' (DeltaRole ''assistant'') None,
      generate_chunk ''chatcmpl-1'' 0 ''deepseek-v3'' (DeltaContent ''<think>'') None,
      generate_chunk ''chatcmpl-1'' 0 ''deepseek-v3'' (DeltaContent ''a'') None]
   = ''<think>a'' \<and>
   chat_completions py ''chatcmpl-1'' 0
     \<lparr>req_model = ''deepseek-v3'', req_messages = [], req_stream = False\<rparr>
     (Inr ''conv'')
     \<lparr>status_code = 200,
      aiter_lines = [''data:{"content":"a","content_type":"thinking"}'',
                     ''data:{"content":"[]","content_type":"card"}'']\<rparr>
   = Inl AttributeError\<close>
  by code_simp

section \<open>Properties of the segmenter\<close>

lemma is_r1_iff: "is_r1 m \<longleftrightarrow> m = ''deepseek-r1'' \<or> m = ''deepseek-r1-search''"
  by (auto simp: is_r1_def)

text \<open>
  The supported models with the deep-reasoning capability, and those for which the
  code defers a card.
\<close>

lemma deep_reasoning_models:
  "filter deep_reasoning supported_models =
     [''deepseek-r1'', ''deepseek-r1-search'', ''doubao-thinking'', ''doubao-thinking-search'',
      ''qwq-plus'', ''qwq-plus-search''] \<and>
   filter is_r1 supported_models = [''deepseek-r1'', ''deepseek-r1-search'']"
  by (simp add: supported_models_def deep_reasoning_def model_to_user_action_def is_r1_def)

text \<open>Every chunk the loop yields is a content chunk without a finish reason.\<close>

lemma stream_event_chunks:
  "stream_event L cid created model dfr st js = Inr (st', out) \<Longrightarrow>
   list_all (\<lambda>c. chunk_finish_reason c = None) out"
  unfolding stream_event_def
  by (auto simp: ebind_def Let_def generate_chunk_def split: sum.splits prod.splits if_splits)

lemma stream_line_chunks:
  "stream_line L cid created model dfr st line = Inr (st', out) \<Longrightarrow>
   list_all (\<lambda>c. chunk_finish_reason c = None) out"
  unfolding stream_line_def
  by (auto dest: stream_event_chunks split: if_splits sum.splits error.splits)

lemma stream_lines_chunks:
  "stream_lines L cid created model dfr st lines = (out, r) \<Longrightarrow>
   list_all (\<lambda>c. chunk_finish_reason c = None) out"
proof (induction lines arbitrary: st out r)
  case Nil
  then show ?case by simp
next
  case (Cons line rest)
  show ?case
  proof (cases "stream_line L cid created model dfr st line")
    case (Inl e)
    then show ?thesis using Cons.prems by simp
  next
    case (Inr p)
    obtain st1 out1 where p: "p = (st1, out1)" by (cases p)
    obtain out2 r2 where rest: "stream_lines L cid created model dfr st1 rest = (out2, r2)"
      by (cases "stream_lines L cid created model dfr st1 rest")
    have "out = out1 @ out2" using Cons.prems Inr p rest by simp
    then show ?thesis
      using stream_line_chunks [of L cid created model dfr st line st1 out1] Inr p
        Cons.IH [OF rest] by simp
  qed
qed

text \<open>
  A run that reaches its end has exactly one stop-marked chunk, the last one.
\<close>

lemma stream_response_stop_last:
  assumes "stream_response L cid created model response = (chunks, None)"
  shows "\<exists>body final. chunks = body @ [final] \<and> chunk_finish_reason final = Some ''stop'' \<and>
           list_all (\<lambda>c. chunk_finish_reason c = None) body"
proof (cases "status_code response = 200")
  case False
  then have "chunks = [generate_chunk cid created model (DeltaRole ''assistant'') None] @
      [generate_chunk cid created model
         (DeltaContent (stream_error_msg (status_code response))) (Some ''stop'')]"
    using assms by (auto simp: stream_response_def Let_def)
  then show ?thesis by (auto simp: generate_chunk_def)
next
  case True
  obtain out r where
    run: "stream_lines L cid created model (is_r1 model) initial_state (aiter_lines response) = (out, r)"
    by (cases "stream_lines L cid created model (is_r1 model) initial_state (aiter_lines response)")
  from assms True run obtain st where r: "r = Inr st"
    by (cases r) (simp_all add: stream_response_def Let_def)
  let ?pre = "generate_chunk cid created model (DeltaRole ''assistant'') None # out @
     (if thinking st then [generate_chunk cid created model (DeltaContent ''</think>'') None] else []) @
     (case card_content st of
        Some pending \<Rightarrow>
          if is_r1 model \<and> pending \<noteq> []
          then [generate_chunk cid created model (DeltaContent (pending @ nl @ nl)) None] else []
      | None \<Rightarrow> [])"
  have "chunks = ?pre @ [generate_chunk cid created model DeltaEmpty (Some ''stop'')]"
    using assms True run r by (simp add: stream_response_def Let_def stream_finish_def)
  moreover have "list_all (\<lambda>c. chunk_finish_reason c = None) ?pre"
    using stream_lines_chunks [OF run] by (simp add: generate_chunk_def split: option.splits)
  moreover have "chunk_finish_reason (generate_chunk cid created model DeltaEmpty (Some ''stop'')) = Some ''stop''"
    by (simp add: generate_chunk_def)
  ultimately show ?thesis by blast
qed

text \<open>
  The think markers follow the flag: the loop yields \<^verbatim>\<open><think>\<close> in front of a
  content fragment exactly when the flag goes from unset to set, \<^verbatim>\<open></think>\<close>
  exactly when it goes from set to unset, and otherwise at most one fragment and no
  marker; after the loop \<open>stream_finish\<close> yields \<^verbatim>\<open></think>\<close> exactly when the
  flag is still set.
\<close>

lemma stream_line_markers:
  assumes "stream_line L cid created model dfr st line = Inr (st', out)"
  shows "\<exists>body. length body \<le> 1 \<and>
           out = (if \<not> thinking st \<and> thinking st'
                  then [generate_chunk cid created model (DeltaContent ''<think>'') None]
                  else if thinking st \<and> \<not> thinking st'
                  then [generate_chunk cid created model (DeltaContent ''</think>'') None]
                  else []) @ body"
  using assms unfolding stream_line_def stream_event_def
  by (auto simp: ebind_def Let_def split: sum.splits prod.splits if_splits error.splits)


text \<open>
  C2. The claim: for every sequence of upstream events the fragments are balanced in
  think markers and end with the one stop marker. A card event whose content is
  valid JSON but not an object makes the renderer raise (see C3); the exception
  passes the handler of the loop and ends the generator: after a thinking event and
  such a card event the output is the role chunk, the open marker and the thinking
  fragment, with no close marker and no stop chunk.
\<close>

theorem stream_response_cut_short:
  \<open>stream_response py ''chatcmpl-1'' 0 ''deepseek-v3''
     \<lparr>status_code = 200,
      aiter_lines = [''data:{"content":"a","content_type":"thinking"}'',
                     ''data:{"content":"[]","content_type":"card"}'']\<rparr>
   = ([generate_chunk ''chatcmpl-1'' 0 ''deepseek-v3'' (DeltaRole ''assistant'') None,
       generate_chunk ''chatcmpl-1'' 0 ''deepseek-v3'' (DeltaContent ''<think>'') None,
       generate_chunk ''chatcmpl-1'' 0 ''deepseek-v3'' (DeltaContent ''a'') None],
      Some AttributeError)\<close>
  by code_simp

text \<open>
  C4, the claim as stated fails: \<^verbatim>\<open>doubao-thinking\<close> has the deep-reasoning
  capability, yet its card is yielded inline, in arrival order, before the text that
  follows it, and nothing is flushed after the loop.
\<close>

theorem card_inline_for_deep_model:
  \<open>deep_reasoning ''doubao-thinking'' \<and>
   stream_response py ''chatcmpl-1'' 0 ''doubao-thinking''
     \<lparr>status_code = 200,
      aiter_lines = [''data:{"content":"{}","content_type":"card"}'',
                     ''data:{"content":"b","content_type":"text"}'']\<rparr>
   = ([generate_chunk ''chatcmpl-1'' 0 ''doubao-thinking'' (DeltaRole ''assistant'') None,
       generate_chunk ''chatcmpl-1'' 0 ''doubao-thinking'' (DeltaContent (msg_unsupported @ nl @ nl)) None,
       generate_chunk ''chatcmpl-1'' 0 ''doubao-thinking'' (DeltaContent ''b'') None,
       generate_chunk ''chatcmpl-1'' 0 ''doubao-thinking'' DeltaEmpty (Some ''stop'')],
      None)\<close>
  by code_simp

text \<open>
  C4, amended. Take a card event: a \<^verbatim>\<open>data:\<close> line that decodes to an object
  with a non-empty string content and the content type \<^verbatim>\<open>card\<close>, whose content
  the renderer turns into \<open>rendered\<close>. For the models \<^verbatim>\<open>deepseek-r1\<close> and
  \<^verbatim>\<open>deepseek-r1-search\<close> both loops store \<open>rendered\<close> as the pending card,
  replacing any earlier one, and yield and append nothing; after the loop a pending
  \<open>rendered\<close> is yielded once, followed by two newlines, behind the closing think
  marker if one is due and right before the stop chunk. For every other model both
  loops append \<open>rendered\<close> followed by two newlines at once, the streaming loop
  yielding it as one chunk, and leave the thinking flag and the pending card as
  they are.
\<close>

theorem card_deferred_for_r1_only:
  assumes "prefix ''data:'' line"
    and "loads L (drop 5 line) = Inr (JObject members)"
    and "dict_lookup members ''content'' = Some (JString c)"
    and "c \<noteq> []"
    and "dict_lookup members ''content_type'' = Some (JString ''card'')"
    and "parse_card_content L (re_sub_span ''<details>'' ''</details>'' c) = Inr rendered"
  shows
    "(model \<in> {''deepseek-r1'', ''deepseek-r1-search''} \<longrightarrow>
        stream_line L cid created model (is_r1 model) st line
          = Inr (st\<lparr>card_content := Some rendered\<rparr>, []) \<and>
        completion_line L (is_r1 model) st line = Inr (st\<lparr>card_content := Some rendered\<rparr>) \<and>
        stream_finish cid created model (is_r1 model) (st'\<lparr>card_content := Some rendered\<rparr>)
          = (if thinking st'
             then [generate_chunk cid created model (DeltaContent ''</think>'') None] else [])
            @ [generate_chunk cid created model (DeltaContent (rendered @ nl @ nl)) None,
               generate_chunk cid created model DeltaEmpty (Some ''stop'')]) \<and>
     (model \<notin> {''deepseek-r1'', ''deepseek-r1-search''} \<longrightarrow>
        stream_line L cid created model (is_r1 model) st line
          = Inr (st\<lparr>content_parts := content_parts st @ [rendered @ nl @ nl]\<rparr>,
                 [generate_chunk cid created model (DeltaContent (rendered @ nl @ nl)) None]) \<and>
        completion_line L (is_r1 model) st line
          = Inr (st\<lparr>content_parts := content_parts st @ [rendered @ nl @ nl]\<rparr>))"
proof -
  have nonempty: "rendered \<noteq> []"
    using assms(6) by (rule parse_card_content_nonempty)
  have ev: "stream_event L cid created model (is_r1 model) st (drop 5 line) =
      (if is_r1 model then Inr (st\<lparr>card_content := Some rendered\<rparr>, [])
       else Inr (st\<lparr>content_parts := content_parts st @ [rendered @ nl @ nl]\<rparr>,
                 [generate_chunk cid created model (DeltaContent (rendered @ nl @ nl)) None]))"
    using assms by (simp add: stream_event_def)
  have line: "stream_line L cid created model (is_r1 model) st line =
      (if is_r1 model then Inr (st\<lparr>card_content := Some rendered\<rparr>, [])
       else Inr (st\<lparr>content_parts := content_parts st @ [rendered @ nl @ nl]\<rparr>,
                 [generate_chunk cid created model (DeltaContent (rendered @ nl @ nl)) None]))"
    using assms(1) ev by (simp add: stream_line_def)
  have cline: "completion_line L (is_r1 model) st line =
      (if is_r1 model then Inr (st\<lparr>card_content := Some rendered\<rparr>)
       else Inr (st\<lparr>content_parts := content_parts st @ [rendered @ nl @ nl]\<rparr>))"
    using line by (simp add: completion_line_stream_line [of L _ st line cid created model])
  have fin: "is_r1 model \<Longrightarrow>
      stream_finish cid created model (is_r1 model) (st'\<lparr>card_content := Some rendered\<rparr>)
          = (if thinking st'
             then [generate_chunk cid created model (DeltaContent ''</think>'') None] else [])
            @ [generate_chunk cid created model (DeltaContent (rendered @ nl @ nl)) None,
               generate_chunk cid created model DeltaEmpty (Some ''stop'')]"
    using nonempty by (simp add: stream_finish_def)
  show ?thesis
  proof (cases "is_r1 model")
    case True
    then have "model \<in> {''deepseek-r1'', ''deepseek-r1-search''}" by (simp add: is_r1_def)
    then show ?thesis using True line cline fin by simp
  next
    case False
    then have "model \<notin> {''deepseek-r1'', ''deepseek-r1-search''}" by (simp add: is_r1_def)
    then show ?thesis using False line cline by simp
  qed
qed


theorem card_deferred_for_r1_only_witness:
  \<open>prefix ''data:'' ''data:{"content":"{}","content_type":"card"}'' \<and>
   loads py (drop 5 ''data:{"content":"{}","content_type":"card"}'')
     = Inr (JObject [(''content'', JString ''{}''), (''content_type'', JString ''card'')]) \<and>
   dict_lookup [(''content'', JString ''{}''), (''content_type'', JString ''card'')] ''content''
     = Some (JString ''{}'') \<and>
   dict_lookup [(''content'', JString ''{}''), (''content_type'', JString ''card'')] ''content_type''
     = Some (JString ''card'') \<and>
   parse_card_content py (re_sub_span ''<details>'' ''</details>'' ''{}'') = Inr msg_unsupported \<and>
   stream_line py ''chatcmpl-1'' 0 ''deepseek-r1'' (is_r1 ''deepseek-r1'') initial_state
       ''data:{"content":"{}","content_type":"card"}''
     = Inr (initial_state\<lparr>card_content := Some msg_unsupported\<rparr>, []) \<and>
   stream_finish ''chatcmpl-1'' 0 ''deepseek-r1'' (is_r1 ''deepseek-r1'')
       (initial_state\<lparr>card_content := Some msg_unsupported\<rparr>)
     = [generate_chunk ''chatcmpl-1'' 0 ''deepseek-r1'' (DeltaContent (msg_unsupported @ nl @ nl)) None,
        generate_chunk ''chatcmpl-1'' 0 ''deepseek-r1'' DeltaEmpty (Some ''stop'')] \<and>
   stream_line py ''chatcmpl-1'' 0 ''doubao-thinking'' (is_r1 ''doubao-thinking'') initial_state
       ''data:{"content":"{}","content_type":"card"}''
     = Inr (initial_state\<lparr>content_parts := content_parts initial_state @ [msg_unsupported @ nl @ nl]\<rparr>,
            [generate_chunk ''chatcmpl-1'' 0 ''doubao-thinking''
               (DeltaContent (msg_unsupported @ nl @ nl)) None])\<close>
proof -
  have h1: \<open>prefix ''data:'' ''data:{"content":"{}","content_type":"card"}''\<close>
    by simp
  have h2: \<open>loads py (drop 5 ''data:{"content":"{}","content_type":"card"}'')
     = Inr (JObject [(''content'', JString ''{}''), (''content_type'', JString ''card'')])\<close>
    by code_simp
  have h3: \<open>dict_lookup [(''content'', JString ''{}''), (''content_type'', JString ''card'')] ''content''
     = Some (JString ''{}'')\<close>
    by (simp add: dict_lookup_def)
  have h4: \<open>''{}'' \<noteq> []\<close>
    by simp
  have h5: \<open>dict_lookup [(''content'', JString ''{}''), (''content_type'', JString ''card'')] ''content_type''
     = Some (JString ''card'')\<close>
    by (simp add: dict_lookup_def)
  have h6: \<open>parse_card_content py (re_sub_span ''<details>'' ''</details>'' ''{}'') = Inr msg_unsupported\<close>
    by code_simp
  show ?thesis
    using h1 h2 h3 h5 h6
      card_deferred_for_r1_only [OF h1 h2 h3 h4 h5 h6, where model = "''deepseek-r1''"
        and cid = "''chatcmpl-1''" and created = 0 and st = initial_state and st' = initial_state]
      card_deferred_for_r1_only [OF h1 h2 h3 h4 h5 h6, where model = "''doubao-thinking''"
        and cid = "''chatcmpl-1''" and created = 0 and st = initial_state and st' = initial_state]
    by (simp add: initial_state_def)
qed

text \<open>
  C5, the claim as stated fails: the emptiness test comes before the removal of the
  details spans. A thinking event whose content consists solely of a details span
  is not ignored: it sets the flag, and the open marker and an empty content
  fragment are yielded and appended.
\<close>

theorem details_only_event_not_ignored:
  \<open>stream_line py ''chatcmpl-1'' 0 ''deepseek-v3'' False initial_state
     ''data:{"content":"<details>x</details>","content_type":"thinking"}''
   = Inr (\<lparr>thinking = True, content_parts = [''<think>'', []], card_content = None\<rparr>,
          [generate_chunk ''chatcmpl-1'' 0 ''deepseek-v3'' (DeltaContent ''<think>'') None,
           generate_chunk ''chatcmpl-1'' 0 ''deepseek-v3'' (DeltaContent []) None])\<close>
  by code_simp

text \<open>
  C5, amended. An event whose content is absent or empty as it arrives (false in
  Python's sense) is ignored entirely by both loops: no fragment, no change of the
  state. For an event with a non-empty string content the details spans are removed
  before the content type is looked at, and a thinking or a text event then makes
  its transition and yields what is left of its content, also when nothing is left.
\<close>

theorem empty_content_ignored_details_stripped:
  assumes "prefix ''data:'' line"
    and "loads L (drop 5 line) = Inr (JObject members)"
  shows
    "(\<not> truthy (case dict_lookup members ''content'' of Some v \<Rightarrow> v | None \<Rightarrow> JNull) \<longrightarrow>
        stream_line L cid created model dfr st line = Inr (st, []) \<and>
        completion_line L dfr st line = Inr st) \<and>
     (dict_lookup members ''content'' = Some (JString c) \<and> c \<noteq> [] \<and>
      dict_lookup members ''content_type'' = Some (JString ''thinking'') \<longrightarrow>
        stream_line L cid created model dfr st line
          = Inr (st\<lparr>thinking := True,
                    content_parts := content_parts st
                      @ (if thinking st then [] else [''<think>''])
                      @ [re_sub_span ''<details>'' ''</details>'' c]\<rparr>,
                 (if thinking st then []
                  else [generate_chunk cid created model (DeltaContent ''<think>'') None])
                 @ [generate_chunk cid created model
                      (DeltaContent (re_sub_span ''<details>'' ''</details>'' c)) None]) \<and>
        completion_line L dfr st line
          = Inr (st\<lparr>thinking := True,
                    content_parts := content_parts st
                      @ (if thinking st then [] else [''<think>''])
                      @ [re_sub_span ''<details>'' ''</details>'' c]\<rparr>)) \<and>
     (dict_lookup members ''content'' = Some (JString c) \<and> c \<noteq> [] \<and>
      dict_lookup members ''content_type'' = Some (JString ''text'') \<longrightarrow>
        stream_line L cid created model dfr st line
          = Inr (st\<lparr>thinking := False,
                    content_parts := content_parts st
                      @ (if thinking st then [''</think>''] else [])
                      @ [re_sub_span ''<details>'' ''</details>'' c]\<rparr>,
                 (if thinking st
                  then [generate_chunk cid created model (DeltaContent ''</think>'') None]
                  else [])
                 @ [generate_chunk cid created model
                      (DeltaContent (re_sub_span ''<details>'' ''</details>'' c)) None]) \<and>
        completion_line L dfr st line
          = Inr (st\<lparr>thinking := False,
                    content_parts := content_parts st
                      @ (if thinking st then [''</think>''] else [])
                      @ [re_sub_span ''<details>'' ''</details>'' c]\<rparr>))"
proof -
  let ?stripped = "re_sub_span ''<details>'' ''</details>'' c"
  have ignored: "stream_line L cid created model dfr st line = Inr (st, []) \<and>
        completion_line L dfr st line = Inr st"
    if "\<not> truthy (case dict_lookup members ''content'' of Some v \<Rightarrow> v | None \<Rightarrow> JNull)"
  proof -
    have "stream_event L cid created model dfr st (drop 5 line) = Inr (st, [])"
      using that assms(2) by (simp add: stream_event_def)
    then have "stream_line L cid created model dfr st line = Inr (st, [])"
      using assms(1) by (simp add: stream_line_def)
    then show ?thesis
      by (simp add: completion_line_stream_line [of L dfr st line cid created model])
  qed
  have think: "stream_line L cid created model dfr st line
          = Inr (st\<lparr>thinking := True,
                    content_parts := content_parts st
                      @ (if thinking st then [] else [''<think>'']) @ [?stripped]\<rparr>,
                 (if thinking st then []
                  else [generate_chunk cid created model (DeltaContent ''<think>'') None])
                 @ [generate_chunk cid created model (DeltaContent ?stripped) None]) \<and>
        completion_line L dfr st line
          = Inr (st\<lparr>thinking := True,
                    content_parts := content_parts st
                      @ (if thinking st then [] else [''<think>'']) @ [?stripped]\<rparr>)"
    if "dict_lookup members ''content'' = Some (JString c) \<and> c \<noteq> [] \<and>
        dict_lookup members ''content_type'' = Some (JString ''thinking'')"
  proof -
    have "stream_event L cid created model dfr st (drop 5 line)
          = Inr (st\<lparr>thinking := True,
                    content_parts := content_parts st
                      @ (if thinking st then [] else [''<think>'']) @ [?stripped]\<rparr>,
                 (if thinking st then []
                  else [generate_chunk cid created model (DeltaContent ''<think>'') None])
                 @ [generate_chunk cid created model (DeltaContent ?stripped) None])"
      using that assms(2) by (cases st) (simp add: stream_event_def)
    then have "stream_line L cid created model dfr st line
          = Inr (st\<lparr>thinking := True,
                    content_parts := content_parts st
                      @ (if thinking st then [] else [''<think>'']) @ [?stripped]\<rparr>,
                 (if thinking st then []
                  else [generate_chunk cid created model (DeltaContent ''<think>'') None])
                 @ [generate_chunk cid created model (DeltaContent ?stripped) None])"
      using assms(1) by (simp add: stream_line_def)
    then show ?thesis
      by (simp add: completion_line_stream_line [of L dfr st line cid created model])
  qed
  have plain: "stream_line L cid created model dfr st line
          = Inr (st\<lparr>thinking := False,
                    content_parts := content_parts st
                      @ (if thinking st then [''</think>''] else []) @ [?stripped]\<rparr>,
                 (if thinking st
                  then [generate_chunk cid created model (DeltaContent ''</think>'') None]
                  else [])
                 @ [generate_chunk cid created model (DeltaContent ?stripped) None]) \<and>
        completion_line L dfr st line
          = Inr (st\<lparr>thinking := False,
                    content_parts := content_parts st
                      @ (if thinking st then [''</think>''] else []) @ [?stripped]\<rparr>)"
    if "dict_lookup members ''content'' = Some (JString c) \<and> c \<noteq> [] \<and>
        dict_lookup members ''content_type'' = Some (JString ''text'')"
  proof -
    have "stream_event L cid created model dfr st (drop 5 line)
          = Inr (st\<lparr>thinking := False,
                    content_parts := content_parts st
                      @ (if thinking st then [''</think>''] else []) @ [?stripped]\<rparr>,
                 (if thinking st
                  then [generate_chunk cid created model (DeltaContent ''</think>'') None]
                  else [])
                 @ [generate_chunk cid created model (DeltaContent ?stripped) None])"
      using that assms(2) by (cases st) (simp add: stream_event_def)
    then have "stream_line L cid created model dfr st line
          = Inr (st\<lparr>thinking := False,
                    content_parts := content_parts st
                      @ (if thinking st then [''</think>''] else []) @ [?stripped]\<rparr>,
                 (if thinking st
                  then [generate_chunk cid created model (DeltaContent ''</think>'') None]
                  else [])
                 @ [generate_chunk cid created model (DeltaContent ?stripped) None])"
      using assms(1) by (simp add: stream_line_def)
    then show ?thesis
      by (simp add: completion_line_stream_line [of L dfr st line cid created model])
  qed
  show ?thesis using ignored think plain by blast
qed

theorem empty_content_ignored_details_stripped_witness:
  \<open>loads py (drop 5 ''data:{"content":"","content_type":"text"}'')
     = Inr (JObject [(''content'', JString []), (''content_type'', JString ''text'')]) \<and>
   \<not> truthy (case dict_lookup [(''content'', JString []), (''content_type'', JString ''text'')] ''content''
              of Some v \<Rightarrow> v | None \<Rightarrow> JNull) \<and>
   stream_line py ''chatcmpl-1'' 0 ''deepseek-v3'' False (initial_state\<lparr>thinking := True\<rparr>)
       ''data:{"content":"","content_type":"text"}''
     = Inr (initial_state\<lparr>thinking := True\<rparr>, []) \<and>
   completion_line py False (initial_state\<lparr>thinking := True\<rparr>)
       ''data:{"content":"","content_type":"text"}''
     = Inr (initial_state\<lparr>thinking := True\<rparr>) \<and>
   loads py (drop 5 ''data:{"content":"k<details>x</details>y","content_type":"thinking"}'')
     = Inr (JObject [(''content'', JString ''k<details>x</details>y''),
                     (''content_type'', JString ''thinking'')]) \<and>
   stream_line py ''chatcmpl-1'' 0 ''deepseek-v3'' False initial_state
       ''data:{"content":"k<details>x</details>y","content_type":"thinking"}''
     = Inr (\<lparr>thinking = True, content_parts = [''<think>'', ''ky''], card_content = None\<rparr>,
            [generate_chunk ''chatcmpl-1'' 0 ''deepseek-v3'' (DeltaContent ''<think>'') None,
             generate_chunk ''chatcmpl-1'' 0 ''deepseek-v3'' (DeltaContent ''ky'') None]) \<and>
   loads py (drop 5 ''data:{"content":"<details>x</details>","content_type":"text"}'')
     = Inr (JObject [(''content'', JString ''<details>x</details>''),
                     (''content_type'', JString ''text'')]) \<and>
   stream_line py ''chatcmpl-1'' 0 ''deepseek-v3'' False (initial_state\<lparr>thinking := True\<rparr>)
       ''data:{"content":"<details>x</details>","content_type":"text"}''
     = Inr (\<lparr>thinking = False, content_parts = [''</think>'', []], card_content = None\<rparr>,
            [generate_chunk ''chatcmpl-1'' 0 ''deepseek-v3'' (DeltaContent ''</think>'') None,
             generate_chunk ''chatcmpl-1'' 0 ''deepseek-v3'' (DeltaContent []) None])\<close>
proof -
  have a1: \<open>prefix ''data:'' ''data:{"content":"","content_type":"text"}''\<close>
    by simp
  have a2: \<open>loads py (drop 5 ''data:{"content":"","content_type":"text"}'')
     = Inr (JObject [(''content'', JString []), (''content_type'', JString ''text'')])\<close>
    by code_simp
  have b1: \<open>prefix ''data:'' ''data:{"content":"k<details>x</details>y","content_type":"thinking"}''\<close>
    by simp
  have b2: \<open>loads py (drop 5 ''data:{"content":"k<details>x</details>y","content_type":"thinking"}'')
     = Inr (JObject [(''content'', JString ''k<details>x</details>y''),
                     (''content_type'', JString ''thinking'')])\<close>
    by code_simp
  have c1: \<open>prefix ''data:'' ''data:{"content":"<details>x</details>","content_type":"text"}''\<close>
    by simp
  have c2: \<open>loads py (drop 5 ''data:{"content":"<details>x</details>","content_type":"text"}'')
     = Inr (JObject [(''content'', JString ''<details>x</details>''),
                     (''content_type'', JString ''text'')])\<close>
    by code_simp
  show ?thesis
    using a2 b2 c2
      empty_content_ignored_details_stripped [OF a1 a2, where cid = "''chatcmpl-1''"
        and created = 0 and model = "''deepseek-v3''" and dfr = False
        and st = "initial_state\<lparr>thinking := True\<rparr>"]
      empty_content_ignored_details_stripped [OF b1 b2, where c = "''k<details>x</details>y''"
        and cid = "''chatcmpl-1''" and created = 0 and model = "''deepseek-v3''" and dfr = False
        and st = initial_state]
      empty_content_ignored_details_stripped [OF c1 c2, where c = "''<details>x</details>''"
        and cid = "''chatcmpl-1''" and created = 0 and model = "''deepseek-v3''" and dfr = False
        and st = "initial_state\<lparr>thinking := True\<rparr>"]
    by (simp add: dict_lookup_def initial_state_def)
qed

text \<open>
  C8, the claim as stated fails: on a non-200 answer the generator yields, after the
  role chunk, one chunk only. The error message and the stop mark travel in that
  same chunk; no stop-marked chunk follows the content fragment.
\<close>

theorem upstream_503_single_chunk:
  \<open>stream_response py ''chatcmpl-1'' 0 ''deepseek-v3''
     \<lparr>status_code = 503, aiter_lines = [''data:{"content":"a","content_type":"text"}'']\<rparr>
   = ([generate_chunk ''chatcmpl-1'' 0 ''deepseek-v3'' (DeltaRole ''assistant'') None,
       generate_chunk ''chatcmpl-1'' 0 ''deepseek-v3''
         (DeltaContent (stream_error_msg 503)) (Some ''stop'')],
      None)\<close>
  by (simp add: stream_response_def)

text \<open>
  C8, amended. When the upstream chat call answers with a status other than 200, the
  streaming output is the role chunk and then exactly one chunk, which carries the
  error message (a fixed text and the status code) as its content and is itself
  marked \<^verbatim>\<open>stop\<close>; nothing follows, and the upstream lines play no part. In
  non-streaming mode the handler raises HTTP 500 with a message of the same kind,
  and no body is produced.
\<close>

theorem upstream_failure:
  assumes "status_code response \<noteq> 200"
  shows
    "stream_response L cid created model response
       = ([generate_chunk cid created model (DeltaRole ''assistant'') None,
           generate_chunk cid created model
             (DeltaContent (stream_error_msg (status_code response))) (Some ''stop'')],
          None) \<and>
     stream_response L cid created model (response\<lparr>aiter_lines := ls\<rparr>)
       = stream_response L cid created model response \<and>
     chat_completions L cid created (request\<lparr>req_stream := False\<rparr>) (Inr conversation_id) response
       = Inl (HTTPException 500 (completion_error_msg (status_code response)))"
  using assms by (simp add: stream_response_def chat_completions_def Let_def)

theorem upstream_failure_witness:
  \<open>status_code \<lparr>status_code = 503, aiter_lines = [''data:{"content":"a","content_type":"text"}'']\<rparr> \<noteq> 200 \<and>
   stream_response py ''chatcmpl-1'' 0 ''deepseek-v3''
     \<lparr>status_code = 503, aiter_lines = [''data:{"content":"a","content_type":"text"}'']\<rparr>
   = ([generate_chunk ''chatcmpl-1'' 0 ''deepseek-v3'' (DeltaRole ''assistant'') None,
       generate_chunk ''chatcmpl-1'' 0 ''deepseek-v3''
         (DeltaContent (stream_error_msg 503)) (Some ''stop'')],
      None) \<and>
   chat_completions py ''chatcmpl-1'' 0
     (\<lparr>req_model = ''deepseek-v3'', req_messages = [], req_stream = True\<rparr>\<lparr>req_stream := False\<rparr>)
     (Inr ''conv'')
     \<lparr>status_code = 503, aiter_lines = [''data:{"content":"a","content_type":"text"}'']\<rparr>
   = Inl (HTTPException 500 (completion_error_msg 503))\<close>
proof -
  have h: \<open>status_code \<lparr>status_code = 503, aiter_lines = [''data:{"content":"a","content_type":"text"}'']\<rparr> \<noteq> 200\<close>
    by simp
  show ?thesis
    using h upstream_failure [OF h, where L = py and cid = "''chatcmpl-1''" and created = 0
      and model = "''deepseek-v3''" and ls = "[]"
      and request = "\<lparr>req_model = ''deepseek-v3'', req_messages = [], req_stream = True\<rparr>"
      and conversation_id = "''conv''"]
    by simp
qed

text \<open>
  C10. An event with a non-empty string content whose content type is none of
  \<^verbatim>\<open>thinking\<close>, \<^verbatim>\<open>text\<close> and \<^verbatim>\<open>card\<close> (absent counts as \<^verbatim>\<open>None\<close>) yields
  no fragment and leaves the whole state as it was, in both loops.
\<close>

theorem unknown_content_type_ignored:
  assumes "prefix ''data:'' line"
    and "loads L (drop 5 line) = Inr (JObject members)"
    and "dict_lookup members ''content'' = Some (JString c)"
    and "c \<noteq> []"
    and "(case dict_lookup members ''content_type'' of Some v \<Rightarrow> v | None \<Rightarrow> JNull)
           \<notin> {JString ''thinking'', JString ''text'', JString ''card''}"
  shows "stream_line L cid created model dfr st line = Inr (st, []) \<and>
         completion_line L dfr st line = Inr st"
proof -
  have "stream_event L cid created model dfr st (drop 5 line) = Inr (st, [])"
    using assms(2-5) by (simp add: stream_event_def)
  then have line: "stream_line L cid created model dfr st line = Inr (st, [])"
    using assms(1) by (simp add: stream_line_def)
  then show ?thesis
    by (simp add: completion_line_stream_line [of L dfr st line cid created model])
qed

theorem unknown_content_type_ignored_witness:
  \<open>loads py (drop 5 ''data:{"content":"x","content_type":"other"}'')
     = Inr (JObject [(''content'', JString ''x''), (''content_type'', JString ''other'')]) \<and>
   stream_line py ''chatcmpl-1'' 0 ''deepseek-r1'' True
       \<lparr>thinking = True, content_parts = [''<think>'', ''a''], card_content = Some ''c''\<rparr>
       ''data:{"content":"x","content_type":"other"}''
     = Inr (\<lparr>thinking = True, content_parts = [''<think>'', ''a''], card_content = Some ''c''\<rparr>, []) \<and>
   completion_line py True
       \<lparr>thinking = True, content_parts = [''<think>'', ''a''], card_content = Some ''c''\<rparr>
       ''data:{"content":"x","content_type":"other"}''
     = Inr \<lparr>thinking = True, content_parts = [''<think>'', ''a''], card_content = Some ''c''\<rparr> \<and>
   loads py (drop 5 ''data:{"content":"x"}'') = Inr (JObject [(''content'', JString ''x'')]) \<and>
   stream_line py ''chatcmpl-1'' 0 ''deepseek-v3'' False initial_state ''data:{"content":"x"}''
     = Inr (initial_state, [])\<close>
proof -
  have a1: \<open>prefix ''data:'' ''data:{"content":"x","content_type":"other"}''\<close>
    by simp
  have a2: \<open>loads py (drop 5 ''data:{"content":"x","content_type":"other"}'')
     = Inr (JObject [(''content'', JString ''x''), (''content_type'', JString ''other'')])\<close>
    by code_simp
  have a3: \<open>dict_lookup [(''content'', JString ''x''), (''content_type'', JString ''other'')] ''content''
     = Some (JString ''x'')\<close>
    by (simp add: dict_lookup_def)
  have a4: \<open>''x'' \<noteq> []\<close>
    by simp
  have a5: \<open>(case dict_lookup [(''content'', JString ''x''), (''content_type'', JString ''other'')]
                 ''content_type'' of Some v \<Rightarrow> v | None \<Rightarrow> JNull)
           \<notin> {JString ''thinking'', JString ''text'', JString ''card''}\<close>
    by (simp add: dict_lookup_def)
  have b1: \<open>prefix ''data:'' ''data:{"content":"x"}''\<close>
    by simp
  have b2: \<open>loads py (drop 5 ''data:{"content":"x"}'') = Inr (JObject [(''content'', JString ''x'')])\<close>
    by code_simp
  have b3: \<open>dict_lookup [(''content'', JString ''x'')] ''content'' = Some (JString ''x'')\<close>
    by (simp add: dict_lookup_def)
  have b5: \<open>(case dict_lookup [(''content'', JString ''x'')] ''content_type''
                 of Some v \<Rightarrow> v | None \<Rightarrow> JNull)
           \<notin> {JString ''thinking'', JString ''text'', JString ''card''}\<close>
    by (simp add: dict_lookup_def)
  show ?thesis
    using a2 b2
      unknown_content_type_ignored [OF a1 a2 a3 a4 a5, where cid = "''chatcmpl-1''"
        and created = 0 and model = "''deepseek-r1''" and dfr = True
        and st = "\<lparr>thinking = True, content_parts = [''<think>'', ''a''], card_content = Some ''c''\<rparr>"]
      unknown_content_type_ignored [OF b1 b2 b3 a4 b5, where cid = "''chatcmpl-1''"
        and created = 0 and model = "''deepseek-v3''" and dfr = False and st = initial_state]
    by simp
qed

end
